theory Spec2Isabelle
  imports Main
begin

section \<open>JavaScript values\<close>

text \<open>
  The values the engine handles: \<open>undefined\<close>, \<open>null\<close>, strings and (integer) numbers.
  Every date part and identifier of the schema is an integer, so a number is an \<open>int\<close>;
  non-integer numbers and \<open>NaN\<close> are outside the model.
\<close>

datatype jsval = JUndefined | JNull | JStr string | JNum int

text \<open>A JavaScript object with primitive properties, in insertion order.\<close>

type_synonym jsobj = "(string \<times> jsval) list"

text \<open>\<open>o[k]\<close>: a missing property reads as \<open>undefined\<close>.\<close>

definition get_prop :: "jsobj \<Rightarrow> string \<Rightarrow> jsval" where
  "get_prop obj k = (case map_of obj k of None \<Rightarrow> JUndefined | Some v \<Rightarrow> v)"

text \<open>Truthiness: \<open>undefined\<close>, \<open>null\<close>, \<open>""\<close> and \<open>0\<close> are falsy.\<close>

fun truthy :: "jsval \<Rightarrow> bool" where
  "truthy JUndefined = False"
| "truthy JNull = False"
| "truthy (JStr s) = (s \<noteq> [])"
| "truthy (JNum n) = (n \<noteq> 0)"

text \<open>\<open>a || b\<close>, \<open>a ?? b\<close>, and a default parameter \<open>p = d\<close> (used for \<open>undefined\<close> only).\<close>

definition js_or :: "jsval \<Rightarrow> jsval \<Rightarrow> jsval" where
  "js_or a b = (if truthy a then a else b)"

definition nullish :: "jsval \<Rightarrow> bool" where
  "nullish v = (v = JNull \<or> v = JUndefined)"

definition js_coalesce :: "jsval \<Rightarrow> jsval \<Rightarrow> jsval" where
  "js_coalesce a b = (if nullish a then b else a)"

definition default_param :: "jsval \<Rightarrow> jsval \<Rightarrow> jsval" where
  "default_param p d = (if p = JUndefined then d else p)"

text \<open>Decimal notation of an integer, as \<open>String(n)\<close> prints it.\<close>

function digits :: "nat \<Rightarrow> string" where
  "digits n = (if n < 10 then [''0123456789'' ! n]
               else digits (n div 10) @ [''0123456789'' ! (n mod 10)])"
  by pat_completeness auto

termination
  by (relation "measure id") auto

declare digits.simps [simp del]

definition string_of_int :: "int \<Rightarrow> string" where
  "string_of_int i = (if i < 0 then CHR ''-'' # digits (nat (- i)) else digits (nat i))"

fun js_String :: "jsval \<Rightarrow> string" where
  "js_String JUndefined = ''undefined''"
| "js_String JNull = ''null''"
| "js_String (JStr s) = s"
| "js_String (JNum n) = string_of_int n"

section \<open>The store: schema, statements, transactions\<close>

text \<open>
  The tables of the migrations. A nullable column is an \<open>option\<close> (\<open>None\<close> is SQL NULL),
  a \<open>uuid\<close> is an opaque number, a \<open>timestamptz\<close> a point on the store's clock.
\<close>

type_synonym uuid = nat

record case_row =
  row_id :: uuid
  state :: string
  title :: string
  description :: "string option"
  created_by :: string
  updated_by :: string
  assigned_to :: "string option"
  person_name :: "string option"
  nhs_number :: "string option"
  dob_day :: "int option"
  dob_month :: "int option"
  dob_year :: "int option"
  symptoms_day :: "int option"
  symptoms_month :: "int option"
  symptoms_year :: "int option"
  postcode :: "string option"
  organisation :: "string option"
  created_at :: nat
  updated_at :: nat
  version :: int

text \<open>The \<open>event_data\<close> payload \<open>{ before, after }\<close>; \<open>None\<close> is JSON \<open>null\<close>.\<close>

record event_data =
  before :: "jsobj option"
  after :: "jsobj option"

record event_row =
  event_id :: nat
  case_id :: uuid
  event_type :: string
  from_state :: "string option"
  to_state :: "string option"
  actor_id :: string
  comment :: "string option"
  occurred_at :: nat
  event_data :: "event_data option"

datatype error =
    StoreFailure string
  | NotNullViolation string
  | ForeignKeyViolation
  | UniqueViolation
  | NumericValueOutOfRange
  | InvalidTextRepresentation
  | TypeError

text \<open>
  The statements the engine sends, each with its parameter array as the source passes
  it. \<open>InsertEvent\<close> stands for the three \<open>INSERT INTO case_events\<close> texts, with the
  values of the columns case_id, event_type, from_state, to_state, actor_id, comment and
  event_data (a column a text leaves out is \<open>null\<close>).
\<close>

datatype stmt =
    BEGIN
  | COMMIT
  | ROLLBACK
  | SelectCase uuid
  | InsertCase jsval jsval jsval
  | UpdateDetails uuid jsval jsval jsval
  | UpdatePerson uuid jsval jsval jsval jsval jsval jsval
  | UpdateClinical uuid jsval jsval jsval jsval
  | UpdateLocation uuid jsval jsval jsval
  | UpdateState uuid jsval jsval
  | InsertEvent uuid jsval jsval jsval jsval jsval "event_data option"

datatype rows = NoRows | CaseRows "case_row list" | IdRows "nat list"

text \<open>
  The store as one connection sees it. \<open>txn\<close> holds the tables as they were at
  \<open>BEGIN\<close> while a transaction is open. \<open>faults\<close> is the environment: statement number
  \<open>k\<close> of the connection fails with \<open>e\<close> when \<open>faults k = Some e\<close> (connection loss,
  deadlock). \<open>trace\<close> records every statement sent with its outcome.
\<close>

record store =
  cases :: "uuid \<Rightarrow> case_row option"
  case_events :: "event_row list"
  next_event_id :: nat
  uuids :: "nat \<Rightarrow> uuid"
  uuid_count :: nat
  txn :: "((uuid \<Rightarrow> case_row option) \<times> event_row list) option"
  now :: nat
  faults :: "nat \<Rightarrow> error option"
  trace :: "(stmt \<times> error option) list"
  clients_out :: nat

text \<open>Binding a parameter to a \<open>text\<close> column and to an \<open>integer\<close> column.\<close>

fun to_text :: "jsval \<Rightarrow> string option" where
  "to_text JUndefined = None"
| "to_text JNull = None"
| "to_text (JStr s) = Some s"
| "to_text (JNum n) = Some (string_of_int n)"

text \<open>
  An \<open>integer\<close> column holds 32 bits. A string bound to an integer column is not
  modelled (the callers pass numbers or \<open>null\<close>): the model rejects it.
\<close>

fun to_int4 :: "jsval \<Rightarrow> error + int option" where
  "to_int4 JUndefined = Inr None"
| "to_int4 JNull = Inr None"
| "to_int4 (JNum n) =
     (if - 2147483648 \<le> n \<and> n \<le> 2147483647 then Inr (Some n) else Inl NumericValueOutOfRange)"
| "to_int4 (JStr s) = Inl InvalidTextRepresentation"

text \<open>Sequencing of checks that may raise.\<close>

definition sum_bind :: "error + 'a \<Rightarrow> ('a \<Rightarrow> error + 'b) \<Rightarrow> error + 'b" where
  "sum_bind x f = (case x of Inl e \<Rightarrow> Inl e | Inr v \<Rightarrow> f v)"

text \<open>A \<open>NOT NULL\<close> text column.\<close>

definition not_null :: "string \<Rightarrow> jsval \<Rightarrow> error + string" where
  "not_null col v = (case to_text v of None \<Rightarrow> Inl (NotNullViolation col) | Some s \<Rightarrow> Inr s)"

text \<open>\<open>UPDATE cases SET ... WHERE id = $1 RETURNING ...\<close>: no row, or the updated row.\<close>

definition update_row :: "uuid \<Rightarrow> (case_row \<Rightarrow> error + case_row) \<Rightarrow> store \<Rightarrow> error + rows \<times> store" where
  "update_row i f st =
     (case cases st i of
        None \<Rightarrow> Inr (CaseRows [], st)
      | Some r \<Rightarrow>
          sum_bind (f r) (\<lambda>r'. Inr (CaseRows [r'], st\<lparr>cases := (cases st)(i := Some r')\<rparr>)))"

text \<open>
  What a statement does when the store executes it. \<open>NOW()\<close> is the store's clock;
  \<open>gen_random_uuid()\<close> and the event sequence draw from supplies that a rollback does
  not rewind.
\<close>

fun exec :: "stmt \<Rightarrow> store \<Rightarrow> error + rows \<times> store" where
  "exec BEGIN st =
     Inr (NoRows, (if txn st = None then st\<lparr>txn := Some (cases st, case_events st)\<rparr> else st))"
| "exec COMMIT st = Inr (NoRows, st\<lparr>txn := None\<rparr>)"
| "exec ROLLBACK st =
     (case txn st of
        None \<Rightarrow> Inr (NoRows, st)
      | Some (cs, es) \<Rightarrow> Inr (NoRows, st\<lparr>cases := cs, case_events := es, txn := None\<rparr>))"
| "exec (SelectCase i) st =
     Inr (CaseRows (case cases st i of None \<Rightarrow> [] | Some r \<Rightarrow> [r]), st)"
| "exec (InsertCase t d cb) st =
     (let i = uuids st (uuid_count st) in
      sum_bind (not_null ''title'' t) (\<lambda>t'.
      sum_bind (not_null ''created_by'' cb) (\<lambda>cb'.
      if cases st i \<noteq> None then Inl UniqueViolation
      else
        let r = \<lparr>row_id = i, state = ''DRAFT'', title = t', description = to_text d,
                 created_by = cb', updated_by = cb', assigned_to = None,
                 person_name = None, nhs_number = None,
                 dob_day = None, dob_month = None, dob_year = None,
                 symptoms_day = None, symptoms_month = None, symptoms_year = None,
                 postcode = None, organisation = None,
                 created_at = now st, updated_at = now st, version = 1\<rparr>
        in Inr (CaseRows [r],
                st\<lparr>cases := (cases st)(i := Some r), uuid_count := Suc (uuid_count st)\<rparr>))))"
| "exec (UpdateDetails i t d ub) st =
     update_row i (\<lambda>r.
       sum_bind (not_null ''title'' t) (\<lambda>t'.
       sum_bind (not_null ''updated_by'' ub) (\<lambda>ub'.
       Inr (r\<lparr>title := t', description := to_text d,
              updated_by := ub', updated_at := now st\<rparr>)))) st"
| "exec (UpdatePerson i pn nhs d m y ub) st =
     sum_bind (to_int4 d) (\<lambda>d'.
     sum_bind (to_int4 m) (\<lambda>m'.
     sum_bind (to_int4 y) (\<lambda>y'.
     update_row i (\<lambda>r.
       sum_bind (not_null ''updated_by'' ub) (\<lambda>ub'.
       Inr (r\<lparr>person_name := to_text pn, nhs_number := to_text nhs,
              dob_day := d', dob_month := m', dob_year := y',
              updated_by := ub', updated_at := now st\<rparr>))) st)))"
| "exec (UpdateClinical i d m y ub) st =
     sum_bind (to_int4 d) (\<lambda>d'.
     sum_bind (to_int4 m) (\<lambda>m'.
     sum_bind (to_int4 y) (\<lambda>y'.
     update_row i (\<lambda>r.
       sum_bind (not_null ''updated_by'' ub) (\<lambda>ub'.
       Inr (r\<lparr>symptoms_day := d', symptoms_month := m', symptoms_year := y',
              updated_by := ub', updated_at := now st\<rparr>))) st)))"
| "exec (UpdateLocation i pc org ub) st =
     update_row i (\<lambda>r.
       sum_bind (not_null ''updated_by'' ub) (\<lambda>ub'.
       Inr (r\<lparr>postcode := to_text pc, organisation := to_text org,
              updated_by := ub', updated_at := now st\<rparr>))) st"
| "exec (UpdateState i s ub) st =
     update_row i (\<lambda>r.
       sum_bind (not_null ''state'' s) (\<lambda>s'.
       sum_bind (not_null ''updated_by'' ub) (\<lambda>ub'.
       Inr (r\<lparr>state := s', updated_by := ub', updated_at := now st\<rparr>)))) st"
| "exec (InsertEvent ci et fs ts ac cm ed) st =
     sum_bind (not_null ''event_type'' et) (\<lambda>et'.
     sum_bind (not_null ''actor_id'' ac) (\<lambda>ac'.
     if cases st ci = None then Inl ForeignKeyViolation
     else
       let ev = \<lparr>event_id = next_event_id st, case_id = ci, event_type = et',
                 from_state = to_text fs, to_state = to_text ts, actor_id = ac',
                 comment = to_text cm, occurred_at = now st, event_data = ed\<rparr>
       in Inr (IdRows [next_event_id st],
               st\<lparr>case_events := case_events st @ [ev],
                  next_event_id := Suc (next_event_id st)\<rparr>)))"

section \<open>Promises: awaiting, throwing, catching\<close>

text \<open>
  An asynchronous computation on the store: it resolves with a value (\<open>Inr\<close>) or rejects
  with an error (\<open>Inl\<close>), and leaves the store in a new state.
\<close>

type_synonym 'a io = "store \<Rightarrow> (error + 'a) \<times> store"

definition resolve :: "'a \<Rightarrow> 'a io" where
  "resolve x st = (Inr x, st)"

definition throw :: "error \<Rightarrow> 'a io" where
  "throw e st = (Inl e, st)"

definition await :: "'a io \<Rightarrow> ('a \<Rightarrow> 'b io) \<Rightarrow> 'b io" where
  "await m f st = (case m st of (Inl e, st') \<Rightarrow> (Inl e, st') | (Inr x, st') \<Rightarrow> f x st')"

definition try_catch :: "'a io \<Rightarrow> (error \<Rightarrow> 'a io) \<Rightarrow> 'a io" where
  "try_catch m h st = (case m st of (Inl e, st') \<Rightarrow> h e st' | (Inr x, st') \<Rightarrow> (Inr x, st'))"

definition try_finally :: "'a io \<Rightarrow> (store \<Rightarrow> store) \<Rightarrow> 'a io" where
  "try_finally m fin st = (case m st of (r, st') \<Rightarrow> (r, fin st'))"

text \<open>
  \<open>client.query(text, params)\<close>: the statement is recorded with its outcome. It rejects
  when the environment makes this statement fail, or when the store refuses it.
\<close>

definition query :: "stmt \<Rightarrow> rows io" where
  "query s st =
     (case faults st (length (trace st)) of
        Some e \<Rightarrow> (Inl e, st\<lparr>trace := trace st @ [(s, Some e)]\<rparr>)
      | None \<Rightarrow>
          (case exec s st of
             Inl e \<Rightarrow> (Inl e, st\<lparr>trace := trace st @ [(s, Some e)]\<rparr>)
           | Inr (rs, st') \<Rightarrow> (Inr rs, st'\<lparr>trace := trace st @ [(s, None)]\<rparr>)))"

text \<open>\<open>pool.connect()\<close> and \<open>client.release()\<close>.\<close>

definition connect :: "unit io" where
  "connect st = (Inr (), st\<lparr>clients_out := Suc (clients_out st)\<rparr>)"

definition release :: "store \<Rightarrow> store" where
  "release st = st\<lparr>clients_out := clients_out st - 1\<rparr>"

text \<open>\<open>result.rows\<close> of a query on cases, and of \<open>RETURNING id\<close> on case_events.\<close>

fun case_rows :: "rows \<Rightarrow> case_row list" where
  "case_rows (CaseRows rs) = rs"
| "case_rows _ = []"

fun id_rows :: "rows \<Rightarrow> nat list" where
  "id_rows (IdRows is) = is"
| "id_rows _ = []"

section \<open>src/models/cases.js\<close>

text \<open>
  How the driver presents a row to JavaScript: an object with one property per column,
  \<open>null\<close> for SQL NULL. The object holds the columns of type text and integer; the id
  and the timestamps, which the engine reads from the row itself, are left out.
\<close>

definition js_text :: "string option \<Rightarrow> jsval" where
  "js_text c = (case c of None \<Rightarrow> JNull | Some s \<Rightarrow> JStr s)"

definition js_int :: "int option \<Rightarrow> jsval" where
  "js_int c = (case c of None \<Rightarrow> JNull | Some n \<Rightarrow> JNum n)"

definition row_object :: "case_row \<Rightarrow> jsobj" where
  "row_object r =
     [(''state'', JStr (state r)),
      (''title'', JStr (title r)),
      (''description'', js_text (description r)),
      (''created_by'', JStr (created_by r)),
      (''updated_by'', JStr (updated_by r)),
      (''assigned_to'', js_text (assigned_to r)),
      (''person_name'', js_text (person_name r)),
      (''nhs_number'', js_text (nhs_number r)),
      (''dob_day'', js_int (dob_day r)),
      (''dob_month'', js_int (dob_month r)),
      (''dob_year'', js_int (dob_year r)),
      (''symptoms_day'', js_int (symptoms_day r)),
      (''symptoms_month'', js_int (symptoms_month r)),
      (''symptoms_year'', js_int (symptoms_year r)),
      (''postcode'', js_text (postcode r)),
      (''organisation'', js_text (organisation r)),
      (''version'', JNum (version r))]"

text \<open>\<open>pickCaseSnapshot(c)\<close>; an argument that is \<open>undefined\<close> or \<open>null\<close> is \<open>None\<close>.\<close>

definition pickCaseSnapshot :: "jsobj option \<Rightarrow> jsobj option" where
  "pickCaseSnapshot c0 =
     (case c0 of
        None \<Rightarrow> None
      | Some c \<Rightarrow> Some
          [(''title'', js_coalesce (get_prop c ''title'') JNull),
           (''description'', js_coalesce (get_prop c ''description'') JNull),
           (''person_name'', js_coalesce (get_prop c ''person_name'') JNull),
           (''nhs_number'', js_coalesce (get_prop c ''nhs_number'') JNull),
           (''dob_day'', js_coalesce (get_prop c ''dob_day'') JNull),
           (''dob_month'', js_coalesce (get_prop c ''dob_month'') JNull),
           (''dob_year'', js_coalesce (get_prop c ''dob_year'') JNull),
           (''symptoms_day'', js_coalesce (get_prop c ''symptoms_day'') JNull),
           (''symptoms_month'', js_coalesce (get_prop c ''symptoms_month'') JNull),
           (''symptoms_year'', js_coalesce (get_prop c ''symptoms_year'') JNull),
           (''postcode'', js_coalesce (get_prop c ''postcode'') JNull),
           (''organisation'', js_coalesce (get_prop c ''organisation'') JNull),
           (''updated_by'', js_coalesce (get_prop c ''updated_by'') JNull),
           (''assigned_to'', js_coalesce (get_prop c ''assigned_to'') JNull),
           (''state'', js_coalesce (get_prop c ''state'') JNull)])"

text \<open>\<open>insertEvent(client, { caseId, eventType, state, actorId, comment, eventData })\<close>.\<close>

definition insertEvent :: "uuid \<Rightarrow> jsval \<Rightarrow> jsval \<Rightarrow> jsval \<Rightarrow> jsval \<Rightarrow> event_data option \<Rightarrow> nat io" where
  "insertEvent caseId eventType st_arg actorId comment_arg eventData =
     await (query (InsertEvent caseId eventType st_arg st_arg actorId
                     (default_param comment_arg JNull) eventData)) (\<lambda>res.
     case id_rows res of
       [] \<Rightarrow> throw TypeError
     | i # _ \<Rightarrow> resolve i)"

text \<open>\<open>createCase({ title, description, createdBy = "local-user" })\<close>.\<close>

definition createCase :: "jsval \<Rightarrow> jsval \<Rightarrow> jsval \<Rightarrow> case_row io" where
  "createCase title_arg description_arg createdBy0 =
     (let createdBy = default_param createdBy0 (JStr ''local-user'') in
      await connect (\<lambda>client.
      try_finally
        (try_catch
          (await (query BEGIN) (\<lambda>_.
           await (query (InsertCase title_arg (js_or description_arg JNull) createdBy)) (\<lambda>insertCase.
           case case_rows insertCase of
             [] \<Rightarrow> throw TypeError
           | c # _ \<Rightarrow>
               await (query (InsertEvent (row_id c) (JStr ''CREATE'') JNull (JStr (state c))
                               createdBy JNull None)) (\<lambda>_.
               await (query COMMIT) (\<lambda>_.
               resolve c)))))
          (\<lambda>e. await (query ROLLBACK) (\<lambda>_. throw e)))
        release))"

text \<open>
  The four field-group updates. Each resolves with \<open>{ case: updated, eventId }\<close>, or with
  \<open>null\<close> (\<open>None\<close>) when no case has the id. Reading \<open>updated.state\<close> of a missing row is a
  \<open>TypeError\<close>.
\<close>

definition updateCaseDetails :: "uuid \<Rightarrow> jsval \<Rightarrow> jsval \<Rightarrow> jsval \<Rightarrow> (case_row \<times> nat) option io" where
  "updateCaseDetails i title_arg description_arg actorId0 =
     (let actorId = default_param actorId0 (JStr ''local-user'') in
      await connect (\<lambda>client.
      try_finally
        (try_catch
          (await (query BEGIN) (\<lambda>_.
           await (query (SelectCase i)) (\<lambda>before_res.
           case case_rows before_res of
             [] \<Rightarrow> await (query ROLLBACK) (\<lambda>_. resolve None)
           | beforeRow # _ \<Rightarrow>
               await (query (UpdateDetails i title_arg (js_or description_arg JNull) actorId)) (\<lambda>res.
               case case_rows res of
                 [] \<Rightarrow> throw TypeError
               | updated # _ \<Rightarrow>
                   await (insertEvent i (JStr ''EDIT_DETAILS'') (JStr (state updated)) actorId JUndefined
                            (Some \<lparr>before = pickCaseSnapshot (Some (row_object beforeRow)),
                                   after = pickCaseSnapshot (Some (row_object updated))\<rparr>)) (\<lambda>eventId.
                   await (query COMMIT) (\<lambda>_.
                   resolve (Some (updated, eventId))))))))
          (\<lambda>e. await (query ROLLBACK) (\<lambda>_. throw e)))
        release))"

definition updatePersonDetails :: "uuid \<Rightarrow> jsval \<Rightarrow> jsval \<Rightarrow> jsval \<Rightarrow> jsval \<Rightarrow> jsval \<Rightarrow> jsval \<Rightarrow> (case_row \<times> nat) option io" where
  "updatePersonDetails i personName nhsNumber dobDay dobMonth dobYear actorId0 =
     (let actorId = default_param actorId0 (JStr ''local-user'') in
      await connect (\<lambda>client.
      try_finally
        (try_catch
          (await (query BEGIN) (\<lambda>_.
           await (query (SelectCase i)) (\<lambda>before_res.
           case case_rows before_res of
             [] \<Rightarrow> await (query ROLLBACK) (\<lambda>_. resolve None)
           | beforeRow # _ \<Rightarrow>
               await (query (UpdatePerson i (js_or personName JNull) (js_or nhsNumber JNull)
                              (js_or dobDay JNull) (js_or dobMonth JNull) (js_or dobYear JNull) actorId)) (\<lambda>res.
               case case_rows res of
                 [] \<Rightarrow> throw TypeError
               | updated # _ \<Rightarrow>
                   await (insertEvent i (JStr ''EDIT_PERSON'') (JStr (state updated)) actorId JUndefined
                            (Some \<lparr>before = pickCaseSnapshot (Some (row_object beforeRow)),
                                   after = pickCaseSnapshot (Some (row_object updated))\<rparr>)) (\<lambda>eventId.
                   await (query COMMIT) (\<lambda>_.
                   resolve (Some (updated, eventId))))))))
          (\<lambda>e. await (query ROLLBACK) (\<lambda>_. throw e)))
        release))"

definition updateClinicalDetails :: "uuid \<Rightarrow> jsval \<Rightarrow> jsval \<Rightarrow> jsval \<Rightarrow> jsval \<Rightarrow> (case_row \<times> nat) option io" where
  "updateClinicalDetails i symptomsDay symptomsMonth symptomsYear actorId0 =
     (let actorId = default_param actorId0 (JStr ''local-user'') in
      await connect (\<lambda>client.
      try_finally
        (try_catch
          (await (query BEGIN) (\<lambda>_.
           await (query (SelectCase i)) (\<lambda>before_res.
           case case_rows before_res of
             [] \<Rightarrow> await (query ROLLBACK) (\<lambda>_. resolve None)
           | beforeRow # _ \<Rightarrow>
               await (query (UpdateClinical i (js_or symptomsDay JNull) (js_or symptomsMonth JNull)
                              (js_or symptomsYear JNull) actorId)) (\<lambda>res.
               case case_rows res of
                 [] \<Rightarrow> throw TypeError
               | updated # _ \<Rightarrow>
                   await (insertEvent i (JStr ''EDIT_CLINICAL'') (JStr (state updated)) actorId JUndefined
                            (Some \<lparr>before = pickCaseSnapshot (Some (row_object beforeRow)),
                                   after = pickCaseSnapshot (Some (row_object updated))\<rparr>)) (\<lambda>eventId.
                   await (query COMMIT) (\<lambda>_.
                   resolve (Some (updated, eventId))))))))
          (\<lambda>e. await (query ROLLBACK) (\<lambda>_. throw e)))
        release))"

definition updateLocationDetails :: "uuid \<Rightarrow> jsval \<Rightarrow> jsval \<Rightarrow> jsval \<Rightarrow> (case_row \<times> nat) option io" where
  "updateLocationDetails i postcode_arg organisation_arg actorId0 =
     (let actorId = default_param actorId0 (JStr ''local-user'') in
      await connect (\<lambda>client.
      try_finally
        (try_catch
          (await (query BEGIN) (\<lambda>_.
           await (query (SelectCase i)) (\<lambda>before_res.
           case case_rows before_res of
             [] \<Rightarrow> await (query ROLLBACK) (\<lambda>_. resolve None)
           | beforeRow # _ \<Rightarrow>
               await (query (UpdateLocation i (js_or postcode_arg JNull) (js_or organisation_arg JNull) actorId)) (\<lambda>res.
               case case_rows res of
                 [] \<Rightarrow> throw TypeError
               | updated # _ \<Rightarrow>
                   await (insertEvent i (JStr ''EDIT_LOCATION'') (JStr (state updated)) actorId JUndefined
                            (Some \<lparr>before = pickCaseSnapshot (Some (row_object beforeRow)),
                                   after = pickCaseSnapshot (Some (row_object updated))\<rparr>)) (\<lambda>eventId.
                   await (query COMMIT) (\<lambda>_.
                   resolve (Some (updated, eventId))))))))
          (\<lambda>e. await (query ROLLBACK) (\<lambda>_. throw e)))
        release))"

text \<open>
  \<open>transitionCase({ id, eventType, comment = null, actorId = "local-user" })\<close>. It resolves
  with the row of \<open>RETURNING id, state, title, created_at, updated_at\<close>, or with a falsy
  value (\<open>None\<close>: \<open>null\<close> when no case has the id, \<open>undefined\<close> when the update returns no
  row).
\<close>

record case_brief =
  brief_id :: uuid
  brief_state :: string
  brief_title :: string
  brief_created_at :: nat
  brief_updated_at :: nat

definition returning_brief :: "case_row \<Rightarrow> case_brief" where
  "returning_brief r =
     \<lparr>brief_id = row_id r, brief_state = state r, brief_title = title r,
      brief_created_at = created_at r, brief_updated_at = updated_at r\<rparr>"

text \<open>The three \<open>if (eventType === ...) toState = ...\<close> lines, in their order.\<close>

definition toState_of :: "jsval \<Rightarrow> jsval \<Rightarrow> jsval" where
  "toState_of eventType fromState =
     (let toState = fromState;
          toState = (if eventType = JStr ''SUBMIT_FOR_REVIEW'' then JStr ''IN_REVIEW'' else toState);
          toState = (if eventType = JStr ''RETURN'' then JStr ''RETURNED'' else toState);
          toState = (if eventType = JStr ''APPROVE'' then JStr ''APPROVED'' else toState)
      in toState)"

definition transitionCase :: "uuid \<Rightarrow> jsval \<Rightarrow> jsval \<Rightarrow> jsval \<Rightarrow> case_brief option io" where
  "transitionCase i eventType comment0 actorId0 =
     (let comment_arg = default_param comment0 JNull;
          actorId = default_param actorId0 (JStr ''local-user'') in
      await connect (\<lambda>client.
      try_finally
        (try_catch
          (await (query BEGIN) (\<lambda>_.
           await (query (SelectCase i)) (\<lambda>current.
           case case_rows current of
             [] \<Rightarrow> await (query ROLLBACK) (\<lambda>_. resolve None)
           | c # _ \<Rightarrow>
               (let fromState = JStr (state c);
                    toState = toState_of eventType fromState in
                await (query (UpdateState i toState actorId)) (\<lambda>updatedCase.
                await (query (InsertEvent i eventType fromState toState actorId comment_arg None)) (\<lambda>_.
                await (query COMMIT) (\<lambda>_.
                resolve (case case_rows updatedCase of
                           [] \<Rightarrow> None
                         | r # _ \<Rightarrow> Some (returning_brief r)))))))))
          (\<lambda>e. await (query ROLLBACK) (\<lambda>_. throw e)))
        release))"


section \<open>src/server.js: the rows of changed fields\<close>

text \<open>
  \<open>formatDMY(day, month, year)\<close>. The parameter \<open>en_GB\<close> is the runtime's
  \<open>new Date(Number(year), Number(month) - 1, Number(day))\<close> followed by
  \<open>toLocaleDateString("en-GB", ...)\<close>; it is \<open>None\<close> when the date is invalid.
\<close>

definition formatDMY :: "(jsval \<Rightarrow> jsval \<Rightarrow> jsval \<Rightarrow> string option) \<Rightarrow> jsval \<Rightarrow> jsval \<Rightarrow> jsval \<Rightarrow> string" where
  "formatDMY en_GB day month year =
     (if \<not> truthy day \<or> \<not> truthy month \<or> \<not> truthy year then []
      else (case en_GB year month day of None \<Rightarrow> [] | Some s \<Rightarrow> s))"

text \<open>\<open>s || "Not provided"\<close> on a string.\<close>

definition or_not_provided :: "string \<Rightarrow> string" where
  "or_not_provided s = (if s \<noteq> [] then s else ''Not provided'')"

definition displayValue :: "(jsval \<Rightarrow> jsval \<Rightarrow> jsval \<Rightarrow> string option) \<Rightarrow> string \<Rightarrow> jsobj \<Rightarrow> string" where
  "displayValue en_GB key snapshot =
     (if key = ''dob_day'' then
        or_not_provided (formatDMY en_GB (get_prop snapshot ''dob_day'')
                           (get_prop snapshot ''dob_month'') (get_prop snapshot ''dob_year''))
      else if key = ''symptoms_day'' then
        or_not_provided (formatDMY en_GB (get_prop snapshot ''symptoms_day'')
                           (get_prop snapshot ''symptoms_month'') (get_prop snapshot ''symptoms_year''))
      else
        (let v = get_prop snapshot key in
         if v = JNull \<or> v = JUndefined \<or> v = JStr [] then ''Not provided'' else js_String v))"

record summary_row =
  key_text :: string
  value_html :: string

definition labelMap :: "(string \<times> string) list" where
  "labelMap =
     [(''person_name'', ''Full name''),
      (''nhs_number'', ''NHS number''),
      (''dob_day'', ''Date of birth''),
      (''symptoms_day'', ''Symptoms start date''),
      (''postcode'', ''Postcode''),
      (''organisation'', ''Organisation''),
      (''title'', ''Title''),
      (''description'', ''Description'')]"

text \<open>\<open>labelMap[k] || k\<close>.\<close>

definition label_of :: "string \<Rightarrow> string" where
  "label_of k = (case map_of labelMap k of None \<Rightarrow> k | Some l \<Rightarrow> if l \<noteq> [] then l else k)"

definition from_to_html :: "string \<Rightarrow> string \<Rightarrow> string" where
  \<open>from_to_html f t =
     ''<span class="govuk-body">From: '' @ f @ ''</span><br><span class="govuk-body">To: '' @ t @ ''</span>''\<close>

definition simpleKeys :: "string list" where
  "simpleKeys = [''person_name'', ''nhs_number'', ''postcode'', ''organisation'', ''title'', ''description'']"

text \<open>The loop \<open>for (const k of simpleKeys)\<close>.\<close>

fun simple_rows :: "(jsval \<Rightarrow> jsval \<Rightarrow> jsval \<Rightarrow> string option) \<Rightarrow> jsobj \<Rightarrow> jsobj \<Rightarrow> string list \<Rightarrow> summary_row list" where
  "simple_rows en_GB before_s after_s [] = []"
| "simple_rows en_GB before_s after_s (k # ks) =
     (let b = js_coalesce (get_prop before_s k) JNull;
          a = js_coalesce (get_prop after_s k) JNull in
      (if js_String (js_coalesce b (JStr [])) \<noteq> js_String (js_coalesce a (JStr []))
       then [\<lparr>key_text = label_of k,
              value_html = from_to_html (displayValue en_GB k before_s) (displayValue en_GB k after_s)\<rparr>]
       else [])
      @ simple_rows en_GB before_s after_s ks)"

definition dobChanged :: "jsobj \<Rightarrow> jsobj \<Rightarrow> bool" where
  "dobChanged before_s after_s =
     (js_coalesce (get_prop before_s ''dob_day'') JNull \<noteq> js_coalesce (get_prop after_s ''dob_day'') JNull \<or>
      js_coalesce (get_prop before_s ''dob_month'') JNull \<noteq> js_coalesce (get_prop after_s ''dob_month'') JNull \<or>
      js_coalesce (get_prop before_s ''dob_year'') JNull \<noteq> js_coalesce (get_prop after_s ''dob_year'') JNull)"

definition symptomsChanged :: "jsobj \<Rightarrow> jsobj \<Rightarrow> bool" where
  "symptomsChanged before_s after_s =
     (js_coalesce (get_prop before_s ''symptoms_day'') JNull \<noteq> js_coalesce (get_prop after_s ''symptoms_day'') JNull \<or>
      js_coalesce (get_prop before_s ''symptoms_month'') JNull \<noteq> js_coalesce (get_prop after_s ''symptoms_month'') JNull \<or>
      js_coalesce (get_prop before_s ''symptoms_year'') JNull \<noteq> js_coalesce (get_prop after_s ''symptoms_year'') JNull)"

text \<open>\<open>buildChangedRows(before = {}, after = {})\<close>; an argument left \<open>undefined\<close> is \<open>None\<close>.\<close>

definition buildChangedRows :: "(jsval \<Rightarrow> jsval \<Rightarrow> jsval \<Rightarrow> string option) \<Rightarrow> jsobj option \<Rightarrow> jsobj option \<Rightarrow> summary_row list" where
  "buildChangedRows en_GB before0 after0 =
     (let before_s = (case before0 of None \<Rightarrow> [] | Some b \<Rightarrow> b);
          after_s = (case after0 of None \<Rightarrow> [] | Some a \<Rightarrow> a) in
      simple_rows en_GB before_s after_s simpleKeys
      @ (if dobChanged before_s after_s
         then [\<lparr>key_text = ''Date of birth'',
                value_html = from_to_html (displayValue en_GB ''dob_day'' before_s)
                                          (displayValue en_GB ''dob_day'' after_s)\<rparr>]
         else [])
      @ (if symptomsChanged before_s after_s
         then [\<lparr>key_text = ''Symptoms start date'',
                value_html = from_to_html (displayValue en_GB ''symptoms_day'' before_s)
                                          (displayValue en_GB ''symptoms_day'' after_s)\<rparr>]
         else []))"

section \<open>src/server.js: the routes that write\<close>




















section \<open>Vocabulary of the properties\<close>

text \<open>The errors the store raised, in a stretch of the trace, and an environment that
  lets the next \<open>n\<close> statements through.\<close>

definition raised :: "(stmt \<times> error option) list \<Rightarrow> error list" where
  "raised tr = List.map_filter snd tr"

definition no_faults :: "store \<Rightarrow> nat \<Rightarrow> bool" where
  "no_faults st n = (\<forall>k<n. faults st (length (trace st) + k) = None)"

text \<open>The operations of the engine, and what the caller sees of a call.\<close>

datatype operation =
    CreateCase jsval jsval jsval
  | UpdateCaseDetails uuid jsval jsval jsval
  | UpdatePersonDetails uuid jsval jsval jsval jsval jsval jsval
  | UpdateClinicalDetails uuid jsval jsval jsval jsval
  | UpdateLocationDetails uuid jsval jsval jsval
  | TransitionCase uuid jsval jsval jsval

datatype outcome = Threw error | ReturnedNull | Returned

definition seen :: "(error + 'a) \<times> store \<Rightarrow> ('a \<Rightarrow> bool) \<Rightarrow> outcome \<times> store" where
  "seen run is_null =
     (case run of
        (Inl e, st') \<Rightarrow> (Threw e, st')
      | (Inr x, st') \<Rightarrow> (if is_null x then ReturnedNull else Returned, st'))"

fun perform :: "operation \<Rightarrow> store \<Rightarrow> outcome \<times> store" where
  "perform (CreateCase t d cb) st = seen (createCase t d cb st) (\<lambda>_. False)"
| "perform (UpdateCaseDetails i t d a) st = seen (updateCaseDetails i t d a st) (\<lambda>x. x = None)"
| "perform (UpdatePersonDetails i pn nhs d m y a) st =
     seen (updatePersonDetails i pn nhs d m y a st) (\<lambda>x. x = None)"
| "perform (UpdateClinicalDetails i d m y a) st =
     seen (updateClinicalDetails i d m y a st) (\<lambda>x. x = None)"
| "perform (UpdateLocationDetails i pc org a) st =
     seen (updateLocationDetails i pc org a st) (\<lambda>x. x = None)"
| "perform (TransitionCase i et cm a) st = seen (transitionCase i et cm a st) (\<lambda>x. x = None)"

text \<open>The case an operation looks up.\<close>

fun looked_up :: "operation \<Rightarrow> uuid option" where
  "looked_up (CreateCase t d cb) = None"
| "looked_up (UpdateCaseDetails i t d a) = Some i"
| "looked_up (UpdatePersonDetails i pn nhs d m y a) = Some i"
| "looked_up (UpdateClinicalDetails i d m y a) = Some i"
| "looked_up (UpdateLocationDetails i pc org a) = Some i"
| "looked_up (TransitionCase i et cm a) = Some i"

text \<open>The field-group updates: the case they edit and the event type of their group.\<close>

fun field_group :: "operation \<Rightarrow> (uuid \<times> string) option" where
  "field_group (UpdateCaseDetails i t d a) = Some (i, ''EDIT_DETAILS'')"
| "field_group (UpdatePersonDetails i pn nhs d m y a) = Some (i, ''EDIT_PERSON'')"
| "field_group (UpdateClinicalDetails i d m y a) = Some (i, ''EDIT_CLINICAL'')"
| "field_group (UpdateLocationDetails i pc org a) = Some (i, ''EDIT_LOCATION'')"
| "field_group (CreateCase t d cb) = None"
| "field_group (TransitionCase i et cm a) = None"

text \<open>Row \<open>r'\<close> is row \<open>r\<close> but for the fields of the operation's group, \<open>updated_by\<close> and
  \<open>updated_at\<close>.\<close>

fun same_outside_group :: "operation \<Rightarrow> case_row \<Rightarrow> case_row \<Rightarrow> bool" where
  "same_outside_group (UpdateCaseDetails i t d a) r r' =
     (r'\<lparr>title := title r, description := description r,
         updated_by := updated_by r, updated_at := updated_at r\<rparr> = r)"
| "same_outside_group (UpdatePersonDetails i pn nhs d m y a) r r' =
     (r'\<lparr>person_name := person_name r, nhs_number := nhs_number r,
         dob_day := dob_day r, dob_month := dob_month r, dob_year := dob_year r,
         updated_by := updated_by r, updated_at := updated_at r\<rparr> = r)"
| "same_outside_group (UpdateClinicalDetails i d m y a) r r' =
     (r'\<lparr>symptoms_day := symptoms_day r, symptoms_month := symptoms_month r,
         symptoms_year := symptoms_year r,
         updated_by := updated_by r, updated_at := updated_at r\<rparr> = r)"
| "same_outside_group (UpdateLocationDetails i pc org a) r r' =
     (r'\<lparr>postcode := postcode r, organisation := organisation r,
         updated_by := updated_by r, updated_at := updated_at r\<rparr> = r)"
| "same_outside_group (CreateCase t d cb) r r' = False"
| "same_outside_group (TransitionCase i et cm a) r r' = False"

text \<open>The legal transitions of the workflow, as the specification lists them.\<close>

definition legal_transition :: "string \<Rightarrow> string \<Rightarrow> bool" where
  "legal_transition s t =
     ((s, t) \<in> set [(''DRAFT'', ''IN_REVIEW''), (''IN_REVIEW'', ''APPROVED''),
                    (''IN_REVIEW'', ''RETURNED''), (''RETURNED'', ''IN_REVIEW'')])"

text \<open>The state an event type names, whatever the current state is.\<close>

definition named_state :: "jsval \<Rightarrow> string \<Rightarrow> string" where
  "named_state eventType current =
     (if eventType = JStr ''SUBMIT_FOR_REVIEW'' then ''IN_REVIEW''
      else if eventType = JStr ''RETURN'' then ''RETURNED''
      else if eventType = JStr ''APPROVE'' then ''APPROVED''
      else current)"

text \<open>The keys of a snapshot.\<close>

definition snapshot_keys :: "string list" where
  "snapshot_keys =
     [''title'', ''description'', ''person_name'', ''nhs_number'',
      ''dob_day'', ''dob_month'', ''dob_year'',
      ''symptoms_day'', ''symptoms_month'', ''symptoms_year'',
      ''postcode'', ''organisation'', ''updated_by'', ''assigned_to'', ''state'']"

text \<open>A part of a date differs between two snapshots; the text shown for a date: the
  formatted date when all three parts are there and form a date, "Not provided" otherwise.\<close>

definition differs :: "jsobj \<Rightarrow> jsobj \<Rightarrow> string \<Rightarrow> bool" where
  "differs b a k = (js_coalesce (get_prop b k) JNull \<noteq> js_coalesce (get_prop a k) JNull)"

definition date_text :: "(jsval \<Rightarrow> jsval \<Rightarrow> jsval \<Rightarrow> string option) \<Rightarrow> jsval \<Rightarrow> jsval \<Rightarrow> jsval \<Rightarrow> string" where
  "date_text en_GB d m y =
     (if truthy d \<and> truthy m \<and> truthy y
      then (case en_GB y m d of
              Some s \<Rightarrow> (if s = [] then ''Not provided'' else s)
            | None \<Rightarrow> ''Not provided'')
      else ''Not provided'')"

text \<open>No case is in state APPROVED or RETURNED.\<close>

definition never_decided :: "(uuid \<Rightarrow> case_row option) \<Rightarrow> bool" where
  "never_decided cs = (\<forall>i r. cs i = Some r \<longrightarrow> state r \<noteq> ''APPROVED'' \<and> state r \<noteq> ''RETURNED'')"

section \<open>Reasoning about transactions\<close>

text \<open>The frame every operation of the engine has around its statements.\<close>

definition in_transaction :: "'a io \<Rightarrow> 'a io" where
  "in_transaction body =
     await connect (\<lambda>client.
     try_finally (try_catch body (\<lambda>e. await (query ROLLBACK) (\<lambda>_. throw e))) release)"

text \<open>The statements of a field-group update, of a transition and of a creation.\<close>

definition field_group_body :: "uuid \<Rightarrow> stmt \<Rightarrow> string \<Rightarrow> jsval \<Rightarrow> (case_row \<times> nat) option io" where
  "field_group_body i upd evt actorId =
     await (query BEGIN) (\<lambda>_.
     await (query (SelectCase i)) (\<lambda>before_res.
     case case_rows before_res of
       [] \<Rightarrow> await (query ROLLBACK) (\<lambda>_. resolve None)
     | beforeRow # _ \<Rightarrow>
         await (query upd) (\<lambda>res.
         case case_rows res of
           [] \<Rightarrow> throw TypeError
         | updated # _ \<Rightarrow>
             await (insertEvent i (JStr evt) (JStr (state updated)) actorId JUndefined
                      (Some \<lparr>before = pickCaseSnapshot (Some (row_object beforeRow)),
                             after = pickCaseSnapshot (Some (row_object updated))\<rparr>)) (\<lambda>eventId.
             await (query COMMIT) (\<lambda>_.
             resolve (Some (updated, eventId)))))))"

definition transition_body :: "uuid \<Rightarrow> jsval \<Rightarrow> jsval \<Rightarrow> jsval \<Rightarrow> case_brief option io" where
  "transition_body i eventType comment_arg actorId =
     await (query BEGIN) (\<lambda>_.
     await (query (SelectCase i)) (\<lambda>current.
     case case_rows current of
       [] \<Rightarrow> await (query ROLLBACK) (\<lambda>_. resolve None)
     | c # _ \<Rightarrow>
         await (query (UpdateState i (toState_of eventType (JStr (state c))) actorId)) (\<lambda>updatedCase.
         await (query (InsertEvent i eventType (JStr (state c))
                         (toState_of eventType (JStr (state c))) actorId comment_arg None)) (\<lambda>_.
         await (query COMMIT) (\<lambda>_.
         resolve (case case_rows updatedCase of
                    [] \<Rightarrow> None
                  | r # _ \<Rightarrow> Some (returning_brief r)))))))"

definition create_body :: "jsval \<Rightarrow> jsval \<Rightarrow> jsval \<Rightarrow> case_row io" where
  "create_body title_arg description_arg createdBy =
     await (query BEGIN) (\<lambda>_.
     await (query (InsertCase title_arg (js_or description_arg JNull) createdBy)) (\<lambda>insertCase.
     case case_rows insertCase of
       [] \<Rightarrow> throw TypeError
     | c # _ \<Rightarrow>
         await (query (InsertEvent (row_id c) (JStr ''CREATE'') JNull (JStr (state c))
                         createdBy JNull None)) (\<lambda>_.
         await (query COMMIT) (\<lambda>_.
         resolve c))))"

fun is_field_update :: "uuid \<Rightarrow> stmt \<Rightarrow> bool" where
  "is_field_update i (UpdateDetails j t d ub) = (j = i)"
| "is_field_update i (UpdatePerson j pn nhs d m y ub) = (j = i)"
| "is_field_update i (UpdateClinical j d m y ub) = (j = i)"
| "is_field_update i (UpdateLocation j pc org ub) = (j = i)"
| "is_field_update i _ = False"

definition begin_state :: "store \<Rightarrow> store" where
  "begin_state st = (if txn st = None then st\<lparr>txn := Some (cases st, case_events st)\<rparr> else st)"

definition writes_row :: "stmt \<Rightarrow> uuid \<Rightarrow> store \<Rightarrow> case_row \<Rightarrow> bool" where
  "writes_row upd i st r' =
     (exec upd st = Inr (CaseRows [r'], st\<lparr>cases := (cases st)(i := Some r')\<rparr>))"









text \<open>The invariant of the server's routes, on the tables and on an open transaction's
  snapshot of them; the rows a query returns; the statements that keep it.\<close>

definition undecided :: "store \<Rightarrow> bool" where
  "undecided s =
     (never_decided (cases s) \<and>
      (case txn s of None \<Rightarrow> True | Some (cs, es) \<Rightarrow> never_decided cs))"



section \<open>Example stores\<close>

definition draft_row :: case_row where
  "draft_row =
     \<lparr>row_id = 7, state = ''DRAFT'', title = ''Flu cluster'', description = None,
      created_by = ''local-user'', updated_by = ''local-user'', assigned_to = None,
      person_name = None, nhs_number = None,
      dob_day = None, dob_month = None, dob_year = None,
      symptoms_day = None, symptoms_month = None, symptoms_year = None,
      postcode = None, organisation = None,
      created_at = 1, updated_at = 1, version = 1\<rparr>"

definition empty_store :: store where
  "empty_store =
     \<lparr>cases = (\<lambda>_. None), case_events = [], next_event_id = 1,
      uuids = (\<lambda>n. 100 + n), uuid_count = 0, txn = None, now = 5,
      faults = (\<lambda>_. None), trace = [], clients_out = 0\<rparr>"

definition draft_store :: store where
  "draft_store = empty_store\<lparr>cases := (\<lambda>_. None)(7 := Some draft_row)\<rparr>"

text \<open>The fourth statement sent (the event insert of an update) fails.\<close>

definition failing_store :: store where
  "failing_store =
     draft_store\<lparr>faults := (\<lambda>k. if k = 3 then Some (StoreFailure ''connection lost'') else None)\<rparr>"

text \<open>A case is created in the empty store, approved at once, and submitted again.\<close>

definition created_store :: store where
  "created_store = snd (createCase (JStr ''Flu cluster'') JNull JUndefined empty_store)"

definition approved_store :: store where
  "approved_store = snd (transitionCase 100 (JStr ''APPROVE'') JUndefined JUndefined created_store)"

definition resubmitted_store :: store where
  "resubmitted_store =
     snd (transitionCase 100 (JStr ''SUBMIT_FOR_REVIEW'') JUndefined JUndefined approved_store)"




text \<open>Two snapshots that differ in the year of birth only, and a formatter of their dates.\<close>

definition born_1990 :: jsobj where
  "born_1990 = [(''person_name'', JStr ''Jane Doe''),
                (''dob_day'', JNum 15), (''dob_month'', JNum 3), (''dob_year'', JNum 1990)]"

definition born_1991 :: jsobj where
  "born_1991 = [(''person_name'', JStr ''Jane Doe''),
                (''dob_day'', JNum 15), (''dob_month'', JNum 3), (''dob_year'', JNum 1991)]"

definition march_dates :: "jsval \<Rightarrow> jsval \<Rightarrow> jsval \<Rightarrow> string option" where
  "march_dates y m d =
     (if m = JNum 3 \<and> d = JNum 15
      then (case y of JNum n \<Rightarrow> Some (''15 March '' @ string_of_int n) | _ \<Rightarrow> None)
      else None)"

text \<open>The person details of the specification's example, for case 7.\<close>

definition jane_update :: operation where
  "jane_update =
     UpdatePersonDetails 7 (JStr ''Jane Doe'') (JStr ''123 456 7890'')
       (JNum 1) (JNum 1) (JNum 1990) JUndefined"

lemmas io_defs = await_def try_catch_def try_finally_def connect_def resolve_def throw_def release_def

section \<open>Evaluation on the example stores\<close>

lemmas store_defs = draft_store_def empty_store_def failing_store_def

lemmas eval_defs = io_defs query_def insertEvent_def update_row_def sum_bind_def not_null_def
  js_or_def default_param_def seen_def Let_def

lemma draft_store_row: "cases draft_store 7 = Some draft_row"
  by (simp add: store_defs)

lemma draft_store_lets_through: "no_faults draft_store n"
  by (simp add: no_faults_def store_defs)

lemma jane_update_returns: "fst (perform jane_update draft_store) = Returned"
  by (simp add: jane_update_def store_defs updatePersonDetails_def eval_defs)

lemma jane_update_run:
  "perform jane_update draft_store = (Returned, snd (perform jane_update draft_store))"
  using jane_update_returns by (simp add: prod_eq_iff)

lemma approve_draft_returns:
  "\<exists>b. fst (transitionCase 7 (JStr ''APPROVE'') JUndefined JUndefined draft_store) = Inr (Some b)"
  by (simp add: transitionCase_def toState_of_def store_defs eval_defs)

lemma create_returns:
  "\<exists>c. fst (createCase (JStr ''Flu cluster'') JNull JUndefined empty_store) = Inr c"
  by (simp add: createCase_def store_defs eval_defs)


section \<open>Operations as transactions\<close>

lemma updateCaseDetails_eq:
  "updateCaseDetails i t d a =
     in_transaction (field_group_body i
       (UpdateDetails i t (js_or d JNull) (default_param a (JStr ''local-user'')))
       ''EDIT_DETAILS'' (default_param a (JStr ''local-user'')))"
  by (simp add: updateCaseDetails_def field_group_body_def in_transaction_def Let_def)

lemma updatePersonDetails_eq:
  "updatePersonDetails i pn nhs d m y a =
     in_transaction (field_group_body i
       (UpdatePerson i (js_or pn JNull) (js_or nhs JNull) (js_or d JNull) (js_or m JNull)
          (js_or y JNull) (default_param a (JStr ''local-user'')))
       ''EDIT_PERSON'' (default_param a (JStr ''local-user'')))"
  by (simp add: updatePersonDetails_def field_group_body_def in_transaction_def Let_def)

lemma updateClinicalDetails_eq:
  "updateClinicalDetails i d m y a =
     in_transaction (field_group_body i
       (UpdateClinical i (js_or d JNull) (js_or m JNull) (js_or y JNull)
          (default_param a (JStr ''local-user'')))
       ''EDIT_CLINICAL'' (default_param a (JStr ''local-user'')))"
  by (simp add: updateClinicalDetails_def field_group_body_def in_transaction_def Let_def)

lemma updateLocationDetails_eq:
  "updateLocationDetails i pc org a =
     in_transaction (field_group_body i
       (UpdateLocation i (js_or pc JNull) (js_or org JNull) (default_param a (JStr ''local-user'')))
       ''EDIT_LOCATION'' (default_param a (JStr ''local-user'')))"
  by (simp add: updateLocationDetails_def field_group_body_def in_transaction_def Let_def)

lemma transitionCase_eq:
  "transitionCase i et cm a =
     in_transaction (transition_body i et (default_param cm JNull)
       (default_param a (JStr ''local-user'')))"
  unfolding transitionCase_def transition_body_def in_transaction_def Let_def
  by (rule refl)

lemma createCase_eq:
  "createCase t d cb =
     in_transaction (create_body t d (default_param cb (JStr ''local-user'')))"
  by (simp add: createCase_def create_body_def in_transaction_def Let_def)

section \<open>Runs that resolve\<close>

lemma await_Inr:
  "(await m f st = (Inr y, st')) = (\<exists>x s1. m st = (Inr x, s1) \<and> f x s1 = (Inr y, st'))"
  by (auto simp: await_def split: prod.splits sum.splits)

lemma resolve_Inr: "(resolve x st = (Inr y, st')) = (y = x \<and> st' = st)"
  by (auto simp: resolve_def)

lemma throw_Inr: "(throw e st = (Inr y, st')) = False"
  by (simp add: throw_def)

lemma in_transaction_Inr:
  "(in_transaction body st = (Inr y, st')) =
     (\<exists>s. body (st\<lparr>clients_out := Suc (clients_out st)\<rparr>) = (Inr y, s) \<and> st' = release s)"
  by (auto simp: in_transaction_def await_def connect_def try_finally_def try_catch_def throw_def
        split: prod.splits sum.splits)

lemma await_query_Inr:
  "(await (query stm) f s = (Inr y, s')) =
     (faults s (length (trace s)) = None \<and>
      (\<exists>rs s1. exec stm s = Inr (rs, s1) \<and>
         f rs (s1\<lparr>trace := trace s @ [(stm, None)]\<rparr>) = (Inr y, s')))"
  by (auto simp: await_def query_def split: option.splits sum.splits prod.splits)

lemma begin_state_simps:
  "cases (begin_state st) = cases st" "case_events (begin_state st) = case_events st"
  "now (begin_state st) = now st" "faults (begin_state st) = faults st"
  "trace (begin_state st) = trace st" "next_event_id (begin_state st) = next_event_id st"
  "uuids (begin_state st) = uuids st" "uuid_count (begin_state st) = uuid_count st"
  by (simp_all add: begin_state_def)

lemma await_BEGIN_Inr:
  "(await (query BEGIN) f s = (Inr y, s')) =
     (faults s (length (trace s)) = None \<and>
      f NoRows ((begin_state s)\<lparr>trace := trace s @ [(BEGIN, None)]\<rparr>) = (Inr y, s'))"
  by (auto simp: await_query_Inr begin_state_def)

lemma await_COMMIT_Inr:
  "(await (query COMMIT) f s = (Inr y, s')) =
     (faults s (length (trace s)) = None \<and>
      f NoRows (s\<lparr>txn := None, trace := trace s @ [(COMMIT, None)]\<rparr>) = (Inr y, s'))"
  by (simp add: await_query_Inr)

lemma await_SelectCase_Inr:
  "(await (query (SelectCase i)) f s = (Inr y, s')) =
     (faults s (length (trace s)) = None \<and>
      f (CaseRows (case cases s i of None \<Rightarrow> [] | Some r \<Rightarrow> [r]))
        (s\<lparr>trace := trace s @ [(SelectCase i, None)]\<rparr>) = (Inr y, s'))"
  by (simp add: await_query_Inr)

lemma exec_InsertEvent_Inr:
  "(exec (InsertEvent ci et fs ts ac cm ed) st = Inr (rs, st')) =
     (\<exists>et' ac'. to_text et = Some et' \<and> to_text ac = Some ac' \<and> cases st ci \<noteq> None \<and>
        rs = IdRows [next_event_id st] \<and>
        st' = st\<lparr>case_events := case_events st @
                  [\<lparr>event_id = next_event_id st, case_id = ci, event_type = et',
                    from_state = to_text fs, to_state = to_text ts, actor_id = ac',
                    comment = to_text cm, occurred_at = now st, event_data = ed\<rparr>],
                next_event_id := Suc (next_event_id st)\<rparr>)"
  by (auto simp: sum_bind_def not_null_def Let_def split: option.splits sum.splits)

lemma await_InsertEvent_Inr:
  "(await (query (InsertEvent ci et fs ts ac cm ed)) f s = (Inr y, s')) =
     (faults s (length (trace s)) = None \<and>
      (\<exists>et' ac'. to_text et = Some et' \<and> to_text ac = Some ac' \<and> cases s ci \<noteq> None \<and>
        f (IdRows [next_event_id s])
          (s\<lparr>case_events := case_events s @
                  [\<lparr>event_id = next_event_id s, case_id = ci, event_type = et',
                    from_state = to_text fs, to_state = to_text ts, actor_id = ac',
                    comment = to_text cm, occurred_at = now s, event_data = ed\<rparr>],
              next_event_id := Suc (next_event_id s),
              trace := trace s @ [(InsertEvent ci et fs ts ac cm ed, None)]\<rparr>) = (Inr y, s')))"
  by (simp add: await_query_Inr exec_InsertEvent_Inr del: exec.simps) blast

lemma update_row_found:
  "cases st i = Some r \<Longrightarrow>
   update_row i f st =
     (case f r of
        Inl e \<Rightarrow> Inl e
      | Inr r' \<Rightarrow> Inr (CaseRows [r'], st\<lparr>cases := (cases st)(i := Some r')\<rparr>))"
  by (simp add: update_row_def sum_bind_def)

lemma exec_field_update_Inr:
  assumes "is_field_update i upd" "cases st i = Some r"
  shows "(exec upd st = Inr (rs, st')) =
           (\<exists>r'. writes_row upd i st r' \<and> rs = CaseRows [r'] \<and>
                 st' = st\<lparr>cases := (cases st)(i := Some r')\<rparr>)"
  using assms unfolding writes_row_def
  by (cases upd)
     (auto simp: update_row_found sum_bind_def not_null_def split: sum.splits option.splits)

lemma await_field_update_Inr:
  assumes "is_field_update i upd" "cases s i = Some r"
  shows "(await (query upd) f s = (Inr y, s')) =
     (faults s (length (trace s)) = None \<and>
      (\<exists>r'. writes_row upd i s r' \<and>
         f (CaseRows [r']) (s\<lparr>cases := (cases s)(i := Some r'),
                               trace := trace s @ [(upd, None)]\<rparr>) = (Inr y, s')))"
  by (simp add: await_query_Inr exec_field_update_Inr [OF assms] del: exec.simps) blast

text \<open>An update reads the row and the clock of the store, and nothing else.\<close>

lemma writes_row_transfer:
  assumes "writes_row upd i s2 r'" "cases s2 = cases s" "now s2 = now s"
    and "is_field_update i upd" "cases s i = Some r"
  shows "exec upd s = Inr (CaseRows [r'], s\<lparr>cases := (cases s)(i := Some r')\<rparr>)"
  using assms unfolding writes_row_def
  by (cases upd)
     (auto simp: update_row_found sum_bind_def not_null_def split: sum.splits option.splits)

lemma field_group_body_Inr:
  assumes run: "field_group_body i upd evt actor s = (Inr (Some (updated, eid)), s')"
    and row: "cases s i = Some r"
    and upd: "is_field_update i upd"
  shows "cases s' = (cases s)(i := Some updated)
       \<and> exec upd s = Inr (CaseRows [updated], s\<lparr>cases := (cases s)(i := Some updated)\<rparr>)
       \<and> case_events s' = case_events s @
           [\<lparr>event_id = eid, case_id = i, event_type = evt,
             from_state = Some (state updated), to_state = Some (state updated),
             actor_id = the (to_text actor), comment = None, occurred_at = now s,
             event_data = Some \<lparr>before = pickCaseSnapshot (Some (row_object r)),
                                 after = pickCaseSnapshot (Some (row_object updated))\<rparr>\<rparr>]"
  using run row
  apply (simp add: field_group_body_def await_BEGIN_Inr await_SelectCase_Inr begin_state_simps
           await_field_update_Inr [OF upd])
  apply (elim exE conjE)
  apply (simp add: insertEvent_def await_Inr [where m = "await m' f'" for m' f']
           await_InsertEvent_Inr begin_state_simps default_param_def)
  apply (elim exE conjE)
  apply (simp add: resolve_Inr await_COMMIT_Inr)
  apply (auto intro: writes_row_transfer [OF _ _ _ upd] simp: begin_state_simps)
  done

text \<open>What each update statement leaves alone.\<close>

lemma exec_UpdateDetails_frame:
  "exec (UpdateDetails i t d ub) s = Inr (CaseRows [r'], s') \<Longrightarrow> cases s i = Some r \<Longrightarrow>
     r'\<lparr>title := title r, description := description r,
        updated_by := updated_by r, updated_at := updated_at r\<rparr> = r"
  by (auto simp: update_row_found sum_bind_def not_null_def split: sum.splits option.splits)

lemma exec_UpdatePerson_frame:
  "exec (UpdatePerson i pn nhs d m y ub) s = Inr (CaseRows [r'], s') \<Longrightarrow> cases s i = Some r \<Longrightarrow>
     r'\<lparr>person_name := person_name r, nhs_number := nhs_number r,
        dob_day := dob_day r, dob_month := dob_month r, dob_year := dob_year r,
        updated_by := updated_by r, updated_at := updated_at r\<rparr> = r"
  by (auto simp: update_row_found sum_bind_def not_null_def split: sum.splits option.splits)

lemma exec_UpdateClinical_frame:
  "exec (UpdateClinical i d m y ub) s = Inr (CaseRows [r'], s') \<Longrightarrow> cases s i = Some r \<Longrightarrow>
     r'\<lparr>symptoms_day := symptoms_day r, symptoms_month := symptoms_month r,
        symptoms_year := symptoms_year r,
        updated_by := updated_by r, updated_at := updated_at r\<rparr> = r"
  by (auto simp: update_row_found sum_bind_def not_null_def split: sum.splits option.splits)

lemma exec_UpdateLocation_frame:
  "exec (UpdateLocation i pc org ub) s = Inr (CaseRows [r'], s') \<Longrightarrow> cases s i = Some r \<Longrightarrow>
     r'\<lparr>postcode := postcode r, organisation := organisation r,
        updated_by := updated_by r, updated_at := updated_at r\<rparr> = r"
  by (auto simp: update_row_found sum_bind_def not_null_def split: sum.splits option.splits)

lemma exec_field_update_state:
  "exec upd s = Inr (CaseRows [r'], s') \<Longrightarrow> is_field_update i upd \<Longrightarrow> cases s i = Some r \<Longrightarrow>
     state r' = state r"
  by (cases upd)
     (auto simp: update_row_found sum_bind_def not_null_def split: sum.splits option.splits)

text \<open>A field-group update that returns its result: the statement it ran and its effects.\<close>

lemma seen_Returned:
  "(seen (m st) (\<lambda>x. x = None) = (Returned, st')) = (\<exists>y. m st = (Inr (Some y), st'))"
  by (cases "m st") (auto simp: seen_def split: sum.splits)

lemma field_group_run:
  assumes run: "in_transaction (field_group_body i upd evt actor) st = (Inr (Some y), st')"
    and row: "cases st i = Some r"
    and upd: "is_field_update i upd"
  shows "\<exists>updated ev s.
         cases s = cases st \<and> now s = now st
       \<and> exec upd s = Inr (CaseRows [updated], s\<lparr>cases := (cases s)(i := Some updated)\<rparr>)
       \<and> cases st' = (cases st)(i := Some updated)
       \<and> case_events st' = case_events st @ [ev]
       \<and> case_id ev = i \<and> event_type ev = evt
       \<and> from_state ev = Some (state updated) \<and> to_state ev = Some (state updated)
       \<and> event_data ev = Some \<lparr>before = pickCaseSnapshot (Some (row_object r)),
                                 after = pickCaseSnapshot (Some (row_object updated))\<rparr>"
proof -
  let ?s = "st\<lparr>clients_out := Suc (clients_out st)\<rparr>"
  obtain updated eid where y: "y = (updated, eid)" by (cases y)
  from run y obtain s1 where
    body: "field_group_body i upd evt actor ?s = (Inr (Some (updated, eid)), s1)"
    and st': "st' = release s1"
    by (auto simp: in_transaction_Inr)
  have row': "cases ?s i = Some r" using row by simp
  note eff = field_group_body_Inr [OF body row' upd]
  let ?ev = "\<lparr>event_id = eid, case_id = i, event_type = evt,
             from_state = Some (state updated), to_state = Some (state updated),
             actor_id = the (to_text actor), comment = None, occurred_at = now ?s,
             event_data = Some \<lparr>before = pickCaseSnapshot (Some (row_object r)),
                                 after = pickCaseSnapshot (Some (row_object updated))\<rparr>\<rparr>"
  have "cases ?s = cases st \<and> now ?s = now st
       \<and> exec upd ?s = Inr (CaseRows [updated], ?s\<lparr>cases := (cases ?s)(i := Some updated)\<rparr>)
       \<and> cases st' = (cases st)(i := Some updated)
       \<and> case_events st' = case_events st @ [?ev]
       \<and> case_id ?ev = i \<and> event_type ?ev = evt
       \<and> from_state ?ev = Some (state updated) \<and> to_state ?ev = Some (state updated)
       \<and> event_data ?ev = Some \<lparr>before = pickCaseSnapshot (Some (row_object r)),
                                 after = pickCaseSnapshot (Some (row_object updated))\<rparr>"
    using eff st' by (simp add: release_def del: exec.simps)
  then show ?thesis by blast
qed

lemma field_group_returned:
  assumes grp: "field_group op = Some (i, evt)"
    and run: "perform op st = (Returned, st')"
  shows "\<exists>upd actor y. is_field_update i upd
       \<and> in_transaction (field_group_body i upd evt actor) st = (Inr (Some y), st')
       \<and> (\<forall>s r r' s'. exec upd s = Inr (CaseRows [r'], s') \<longrightarrow> cases s i = Some r \<longrightarrow>
             same_outside_group op r r')"
proof (cases op)
  case (UpdateCaseDetails j t d a)
  with grp have ji: "j = i" and ev: "evt = ''EDIT_DETAILS''" by auto
  let ?upd = "UpdateDetails i t (js_or d JNull) (default_param a (JStr ''local-user''))"
  let ?actor = "default_param a (JStr ''local-user'')"
  from run UpdateCaseDetails ji ev obtain y where
    "in_transaction (field_group_body i ?upd evt ?actor) st = (Inr (Some y), st')"
    by (auto simp: seen_Returned updateCaseDetails_eq)
  moreover have "is_field_update i ?upd" by simp
  moreover have "\<forall>s r r' s'. exec ?upd s = Inr (CaseRows [r'], s') \<longrightarrow> cases s i = Some r \<longrightarrow>
             same_outside_group op r r'"
    using UpdateCaseDetails by (auto dest: exec_UpdateDetails_frame simp del: exec.simps)
  ultimately show ?thesis by blast
next
  case (UpdatePersonDetails j pn nhs d m y a)
  with grp have ji: "j = i" and ev: "evt = ''EDIT_PERSON''" by auto
  let ?upd = "UpdatePerson i (js_or pn JNull) (js_or nhs JNull) (js_or d JNull) (js_or m JNull)
               (js_or y JNull) (default_param a (JStr ''local-user''))"
  let ?actor = "default_param a (JStr ''local-user'')"
  from run UpdatePersonDetails ji ev obtain y where
    "in_transaction (field_group_body i ?upd evt ?actor) st = (Inr (Some y), st')"
    by (auto simp: seen_Returned updatePersonDetails_eq)
  moreover have "is_field_update i ?upd" by simp
  moreover have "\<forall>s r r' s'. exec ?upd s = Inr (CaseRows [r'], s') \<longrightarrow> cases s i = Some r \<longrightarrow>
             same_outside_group op r r'"
    using UpdatePersonDetails by (auto dest: exec_UpdatePerson_frame simp del: exec.simps)
  ultimately show ?thesis by blast
next
  case (UpdateClinicalDetails j d m y a)
  with grp have ji: "j = i" and ev: "evt = ''EDIT_CLINICAL''" by auto
  let ?upd = "UpdateClinical i (js_or d JNull) (js_or m JNull) (js_or y JNull)
               (default_param a (JStr ''local-user''))"
  let ?actor = "default_param a (JStr ''local-user'')"
  from run UpdateClinicalDetails ji ev obtain y where
    "in_transaction (field_group_body i ?upd evt ?actor) st = (Inr (Some y), st')"
    by (auto simp: seen_Returned updateClinicalDetails_eq)
  moreover have "is_field_update i ?upd" by simp
  moreover have "\<forall>s r r' s'. exec ?upd s = Inr (CaseRows [r'], s') \<longrightarrow> cases s i = Some r \<longrightarrow>
             same_outside_group op r r'"
    using UpdateClinicalDetails by (auto dest: exec_UpdateClinical_frame simp del: exec.simps)
  ultimately show ?thesis by blast
next
  case (UpdateLocationDetails j pc org a)
  with grp have ji: "j = i" and ev: "evt = ''EDIT_LOCATION''" by auto
  let ?upd = "UpdateLocation i (js_or pc JNull) (js_or org JNull)
               (default_param a (JStr ''local-user''))"
  let ?actor = "default_param a (JStr ''local-user'')"
  from run UpdateLocationDetails ji ev obtain y where
    "in_transaction (field_group_body i ?upd evt ?actor) st = (Inr (Some y), st')"
    by (auto simp: seen_Returned updateLocationDetails_eq)
  moreover have "is_field_update i ?upd" by simp
  moreover have "\<forall>s r r' s'. exec ?upd s = Inr (CaseRows [r'], s') \<longrightarrow> cases s i = Some r \<longrightarrow>
             same_outside_group op r r'"
    using UpdateLocationDetails by (auto dest: exec_UpdateLocation_frame simp del: exec.simps)
  ultimately show ?thesis by blast
qed (use grp in simp_all)

text \<open>
  Claim C1. A field-group update of an existing case that returns its result has written
  exactly one event. Its \<open>event_data.before\<close> is the snapshot of the row read at the start
  of the transaction, its \<open>event_data.after\<close> the snapshot of the updated row, its event
  type is the one of the group, and \<open>from_state\<close> and \<open>to_state\<close> are both the workflow
  state of the case, which the update does not change.
\<close>

theorem C1_event_of_field_group_update:
  assumes grp: "field_group op = Some (i, evt)"
    and row: "cases st i = Some r"
    and run: "perform op st = (Returned, st')"
  shows "\<exists>ev r'. case_events st' = case_events st @ [ev]
       \<and> cases st' i = Some r'
       \<and> case_id ev = i \<and> event_type ev = evt
       \<and> event_data ev = Some \<lparr>before = pickCaseSnapshot (Some (row_object r)),
                                 after = pickCaseSnapshot (Some (row_object r'))\<rparr>
       \<and> from_state ev = Some (state r) \<and> to_state ev = Some (state r)
       \<and> state r' = state r"
proof -
  from field_group_returned [OF grp run] obtain upd actor y where
    upd: "is_field_update i upd" and
    tx: "in_transaction (field_group_body i upd evt actor) st = (Inr (Some y), st')"
    by blast
  from field_group_run [OF tx row upd] obtain updated ev s where
    s: "cases s = cases st" and
    ex: "exec upd s = Inr (CaseRows [updated], s\<lparr>cases := (cases s)(i := Some updated)\<rparr>)" and
    eff: "cases st' = (cases st)(i := Some updated)" "case_events st' = case_events st @ [ev]"
      "case_id ev = i" "event_type ev = evt"
      "from_state ev = Some (state updated)" "to_state ev = Some (state updated)"
      "event_data ev = Some \<lparr>before = pickCaseSnapshot (Some (row_object r)),
                                 after = pickCaseSnapshot (Some (row_object updated))\<rparr>"
    by blast
  from exec_field_update_state [OF ex upd] s row have "state updated = state r" by simp
  with eff show ?thesis by simp
qed

theorem C1_witness:
  "\<exists>ev r'. case_events (snd (perform jane_update draft_store)) = case_events draft_store @ [ev]
       \<and> cases (snd (perform jane_update draft_store)) 7 = Some r'
       \<and> case_id ev = 7 \<and> event_type ev = ''EDIT_PERSON''
       \<and> event_data ev = Some \<lparr>before = pickCaseSnapshot (Some (row_object draft_row)),
                                 after = pickCaseSnapshot (Some (row_object r'))\<rparr>
       \<and> from_state ev = Some (state draft_row) \<and> to_state ev = Some (state draft_row)
       \<and> state r' = state draft_row"
proof -
  have grp: "field_group jane_update = Some (7, ''EDIT_PERSON'')"
    by (simp add: jane_update_def)
  have row: "cases draft_store 7 = Some draft_row"
    by (simp add: store_defs)
  from C1_event_of_field_group_update [OF grp row jane_update_run] show ?thesis .
qed

text \<open>
  Claim C8. A field-group update of an existing case changes, in the row of that case,
  only the fields of its group, \<open>updated_by\<close> and \<open>updated_at\<close>: setting these back
  gives the row as it was. No other row changes.
\<close>

theorem C8_frame_of_field_group_update:
  assumes grp: "field_group op = Some (i, evt)"
    and row: "cases st i = Some r"
    and run: "perform op st = (Returned, st')"
  shows "\<exists>r'. cases st' = (cases st)(i := Some r') \<and> same_outside_group op r r'"
proof -
  from field_group_returned [OF grp run] obtain upd actor y where
    upd: "is_field_update i upd" and
    tx: "in_transaction (field_group_body i upd evt actor) st = (Inr (Some y), st')" and
    frame: "\<And>s r r' s'. exec upd s = Inr (CaseRows [r'], s') \<Longrightarrow> cases s i = Some r \<Longrightarrow>
             same_outside_group op r r'"
    by blast
  from field_group_run [OF tx row upd] obtain updated s where
    s: "cases s = cases st" and
    ex: "exec upd s = Inr (CaseRows [updated], s\<lparr>cases := (cases s)(i := Some updated)\<rparr>)" and
    eff: "cases st' = (cases st)(i := Some updated)"
    by blast
  from frame [OF ex] s row have "same_outside_group op r updated" by simp
  with eff show ?thesis by blast
qed

theorem C8_witness:
  "\<exists>r'. cases (snd (perform jane_update draft_store)) = (cases draft_store)(7 := Some r')
       \<and> same_outside_group jane_update draft_row r'"
proof -
  have grp: "field_group jane_update = Some (7, ''EDIT_PERSON'')"
    by (simp add: jane_update_def)
  have row: "cases draft_store 7 = Some draft_row"
    by (simp add: store_defs)
  from C8_frame_of_field_group_update [OF grp row jane_update_run] show ?thesis .
qed

section \<open>Runs the store lets through\<close>

lemma no_faults_5:
  assumes "no_faults st 5"
  shows "faults st (length (trace st)) = None"
    "faults st (Suc (length (trace st))) = None"
    "faults st (Suc (Suc (length (trace st)))) = None"
    "faults st (Suc (Suc (Suc (length (trace st))))) = None"
    "faults st (Suc (Suc (Suc (Suc (length (trace st)))))) = None"
proof -
  have all: "\<And>k. k < 5 \<Longrightarrow> faults st (length (trace st) + k) = None"
    using assms by (simp add: no_faults_def)
  show "faults st (length (trace st)) = None" using all [of 0] by simp
  show "faults st (Suc (length (trace st))) = None" using all [of "Suc 0"] by simp
  show "faults st (Suc (Suc (length (trace st)))) = None" using all [of "Suc (Suc 0)"] by simp
  show "faults st (Suc (Suc (Suc (length (trace st))))) = None" using all [of "Suc (Suc (Suc 0))"] by simp
  show "faults st (Suc (Suc (Suc (Suc (length (trace st)))))) = None" using all [of "Suc (Suc (Suc (Suc 0)))"] by simp
qed

lemma no_faults_3:
  assumes "no_faults st 3"
  shows "faults st (length (trace st)) = None"
    "faults st (Suc (length (trace st))) = None"
    "faults st (Suc (Suc (length (trace st)))) = None"
proof -
  have all: "\<And>k. k < 3 \<Longrightarrow> faults st (length (trace st) + k) = None"
    using assms by (simp add: no_faults_def)
  show "faults st (length (trace st)) = None" using all [of 0] by simp
  show "faults st (Suc (length (trace st))) = None" using all [of "Suc 0"] by simp
  show "faults st (Suc (Suc (length (trace st)))) = None" using all [of "Suc (Suc 0)"] by simp
qed

lemma exec_BEGIN: "exec BEGIN st = Inr (NoRows, begin_state st)"
  by (simp add: begin_state_def)

lemma begin_state_txn: "txn st = None \<Longrightarrow> txn (begin_state st) = Some (cases st, case_events st)"
  by (simp add: begin_state_def)

lemma toState_of_named: "toState_of et (JStr s) = JStr (named_state et s)"
  by (simp add: toState_of_def named_state_def Let_def)

lemma transition_let_through:
  assumes row: "cases st i = Some r"
    and nf: "no_faults st 5"
    and actor: "to_text (default_param a (JStr ''local-user'')) = Some u"
    and tag: "to_text et = Some tag"
    and run: "transitionCase i et cm a st = (res, st')"
  shows "res = Inr (Some (returning_brief
                 (r\<lparr>state := named_state et (state r), updated_by := u, updated_at := now st\<rparr>)))
       \<and> cases st' = (cases st)(i := Some
                 (r\<lparr>state := named_state et (state r), updated_by := u, updated_at := now st\<rparr>))
       \<and> case_events st' = case_events st @
            [\<lparr>event_id = next_event_id st, case_id = i, event_type = tag,
              from_state = Some (state r), to_state = Some (named_state et (state r)),
              actor_id = u, comment = to_text (default_param cm JNull),
              occurred_at = now st, event_data = None\<rparr>]"
  using row actor tag no_faults_5 [OF nf] run
  by (auto simp: transitionCase_eq in_transaction_def transition_body_def toState_of_named
        io_defs query_def update_row_def sum_bind_def not_null_def
        exec_BEGIN begin_state_simps simp del: exec.simps(1))

lemma field_group_not_found:
  assumes row: "cases st i = None"
    and idle: "txn st = None"
    and nf: "no_faults st 3"
    and run: "in_transaction (field_group_body i upd evt actor) st = (res, st')"
  shows "res = Inr None \<and> cases st' = cases st \<and> case_events st' = case_events st
       \<and> trace st' = trace st @ [(BEGIN, None), (SelectCase i, None), (ROLLBACK, None)]"
  using row idle no_faults_3 [OF nf] run
  by (auto simp: in_transaction_def field_group_body_def io_defs query_def
        exec_BEGIN begin_state_simps begin_state_txn simp del: exec.simps(1))

lemma transition_not_found:
  assumes row: "cases st i = None"
    and idle: "txn st = None"
    and nf: "no_faults st 3"
    and run: "in_transaction (transition_body i et cm actor) st = (res, st')"
  shows "res = Inr None \<and> cases st' = cases st \<and> case_events st' = case_events st
       \<and> trace st' = trace st @ [(BEGIN, None), (SelectCase i, None), (ROLLBACK, None)]"
  using row idle no_faults_3 [OF nf] run
  by (auto simp: in_transaction_def transition_body_def io_defs query_def
        exec_BEGIN begin_state_simps begin_state_txn simp del: exec.simps(1))

lemma seen_cases:
  "seen (m st) (\<lambda>x. x = None) = (out, st') \<Longrightarrow>
     \<exists>res. m st = (res, st') \<and>
       out = (case res of Inl e \<Rightarrow> Threw e | Inr None \<Rightarrow> ReturnedNull | Inr (Some _) \<Rightarrow> Returned)"
  by (cases "m st") (auto simp: seen_def split: sum.splits option.splits)

text \<open>
  Claim C7. When no case has the id an operation looks up (the four field-group updates
  and \<open>transitionCase\<close>), and the store lets the three statements through, the operation
  sends BEGIN, the SELECT and ROLLBACK, returns \<open>null\<close> (it does not throw), and leaves
  every case row and the event table as they were.
\<close>

theorem C7_not_found_returns_null:
  assumes op: "looked_up op = Some i"
    and row: "cases st i = None"
    and idle: "txn st = None"
    and nf: "no_faults st 3"
    and run: "perform op st = (out, st')"
  shows "out = ReturnedNull \<and> cases st' = cases st \<and> case_events st' = case_events st
       \<and> trace st' = trace st @ [(BEGIN, None), (SelectCase i, None), (ROLLBACK, None)]"
proof (cases op)
  case (CreateCase t d cb)
  with op show ?thesis by simp
next
  case (UpdateCaseDetails j t d a)
  with op run obtain res where "updateCaseDetails i t d a st = (res, st')"
    and out: "out = (case res of Inl e \<Rightarrow> Threw e | Inr None \<Rightarrow> ReturnedNull | Inr (Some _) \<Rightarrow> Returned)"
    by (auto dest: seen_cases)
  from field_group_not_found [OF row idle nf this(1) [unfolded updateCaseDetails_eq]] out show ?thesis
    by simp
next
  case (UpdatePersonDetails j pn nhs d m y a)
  with op run obtain res where "updatePersonDetails i pn nhs d m y a st = (res, st')"
    and out: "out = (case res of Inl e \<Rightarrow> Threw e | Inr None \<Rightarrow> ReturnedNull | Inr (Some _) \<Rightarrow> Returned)"
    by (auto dest: seen_cases)
  from field_group_not_found [OF row idle nf this(1) [unfolded updatePersonDetails_eq]] out show ?thesis
    by simp
next
  case (UpdateClinicalDetails j d m y a)
  with op run obtain res where "updateClinicalDetails i d m y a st = (res, st')"
    and out: "out = (case res of Inl e \<Rightarrow> Threw e | Inr None \<Rightarrow> ReturnedNull | Inr (Some _) \<Rightarrow> Returned)"
    by (auto dest: seen_cases)
  from field_group_not_found [OF row idle nf this(1) [unfolded updateClinicalDetails_eq]] out show ?thesis
    by simp
next
  case (UpdateLocationDetails j pc org a)
  with op run obtain res where "updateLocationDetails i pc org a st = (res, st')"
    and out: "out = (case res of Inl e \<Rightarrow> Threw e | Inr None \<Rightarrow> ReturnedNull | Inr (Some _) \<Rightarrow> Returned)"
    by (auto dest: seen_cases)
  from field_group_not_found [OF row idle nf this(1) [unfolded updateLocationDetails_eq]] out show ?thesis
    by simp
next
  case (TransitionCase j et cm a)
  with op run obtain res where "transitionCase i et cm a st = (res, st')"
    and out: "out = (case res of Inl e \<Rightarrow> Threw e | Inr None \<Rightarrow> ReturnedNull | Inr (Some _) \<Rightarrow> Returned)"
    by (auto dest: seen_cases)
  from transition_not_found [OF row idle nf this(1) [unfolded transitionCase_eq]] out show ?thesis
    by simp
qed

theorem C7_witness:
  "fst (perform (TransitionCase 8 (JStr ''SUBMIT_FOR_REVIEW'') JUndefined JUndefined) draft_store)
     = ReturnedNull
   \<and> cases (snd (perform (TransitionCase 8 (JStr ''SUBMIT_FOR_REVIEW'') JUndefined JUndefined)
                   draft_store)) = cases draft_store
   \<and> case_events (snd (perform (TransitionCase 8 (JStr ''SUBMIT_FOR_REVIEW'') JUndefined JUndefined)
                         draft_store)) = case_events draft_store
   \<and> trace (snd (perform (TransitionCase 8 (JStr ''SUBMIT_FOR_REVIEW'') JUndefined JUndefined)
                   draft_store))
     = trace draft_store @ [(BEGIN, None), (SelectCase 8, None), (ROLLBACK, None)]"
proof -
  have run: "perform (TransitionCase 8 (JStr ''SUBMIT_FOR_REVIEW'') JUndefined JUndefined) draft_store =
      (fst (perform (TransitionCase 8 (JStr ''SUBMIT_FOR_REVIEW'') JUndefined JUndefined) draft_store),
       snd (perform (TransitionCase 8 (JStr ''SUBMIT_FOR_REVIEW'') JUndefined JUndefined) draft_store))"
    by simp
  have op: "looked_up (TransitionCase 8 (JStr ''SUBMIT_FOR_REVIEW'') JUndefined JUndefined) = Some 8"
    by simp
  have row: "cases draft_store 8 = None" by (simp add: store_defs)
  have idle: "txn draft_store = None" by (simp add: store_defs)
  from C7_not_found_returns_null [OF op row idle draft_store_lets_through run]
  show ?thesis .
qed



text \<open>
  Claim C6. \<open>transitionCase\<close> with "SUBMIT_FOR_REVIEW" on an existing case in state DRAFT,
  when the store lets the five statements through, sets the state of the case to
  IN_REVIEW and appends exactly one event, from DRAFT to IN_REVIEW.
\<close>

theorem C6_submit_draft_for_review:
  assumes row: "cases st i = Some r" and draft: "state r = ''DRAFT''"
    and actor: "a \<noteq> JNull"
    and nf: "no_faults st 5"
    and run: "transitionCase i (JStr ''SUBMIT_FOR_REVIEW'') cm a st = (res, st')"
  shows "(\<exists>b. res = Inr (Some b) \<and> brief_state b = ''IN_REVIEW'')
       \<and> (\<exists>r'. cases st' i = Some r' \<and> state r' = ''IN_REVIEW'')
       \<and> (\<exists>ev. case_events st' = case_events st @ [ev] \<and> case_id ev = i
             \<and> event_type ev = ''SUBMIT_FOR_REVIEW''
             \<and> from_state ev = Some ''DRAFT'' \<and> to_state ev = Some ''IN_REVIEW'')"
proof -
  from actor obtain u where u: "to_text (default_param a (JStr ''local-user'')) = Some u"
    by (cases a) (auto simp: default_param_def)
  have tag: "to_text (JStr ''SUBMIT_FOR_REVIEW'') = Some ''SUBMIT_FOR_REVIEW''" by simp
  have named: "named_state (JStr ''SUBMIT_FOR_REVIEW'') (state r) = ''IN_REVIEW''"
    by (simp add: named_state_def)
  from transition_let_through [OF row nf u tag run] named draft show ?thesis
    by (simp add: returning_brief_def)
qed

theorem C6_witness:
  "(\<exists>b. fst (transitionCase 7 (JStr ''SUBMIT_FOR_REVIEW'') JUndefined JUndefined draft_store)
            = Inr (Some b) \<and> brief_state b = ''IN_REVIEW'')
   \<and> (\<exists>r'. cases (snd (transitionCase 7 (JStr ''SUBMIT_FOR_REVIEW'') JUndefined JUndefined
                          draft_store)) 7 = Some r' \<and> state r' = ''IN_REVIEW'')
   \<and> (\<exists>ev. case_events (snd (transitionCase 7 (JStr ''SUBMIT_FOR_REVIEW'') JUndefined JUndefined
                               draft_store)) = case_events draft_store @ [ev]
         \<and> case_id ev = 7 \<and> event_type ev = ''SUBMIT_FOR_REVIEW''
         \<and> from_state ev = Some ''DRAFT'' \<and> to_state ev = Some ''IN_REVIEW'')"
proof -
  have run: "transitionCase 7 (JStr ''SUBMIT_FOR_REVIEW'') JUndefined JUndefined draft_store =
      (fst (transitionCase 7 (JStr ''SUBMIT_FOR_REVIEW'') JUndefined JUndefined draft_store),
       snd (transitionCase 7 (JStr ''SUBMIT_FOR_REVIEW'') JUndefined JUndefined draft_store))"
    by simp
  have draft: "state draft_row = ''DRAFT''" by (simp add: draft_row_def)
  have actor: "JUndefined \<noteq> JNull" by simp
  from C6_submit_draft_for_review
         [OF draft_store_row draft actor draft_store_lets_through run]
  show ?thesis .
qed

section \<open>Rules for assertions\<close>











section \<open>A failure inside a transaction\<close>

lemma raised_simps [simp]:
  "raised [] = []" "raised (xs @ ys) = raised xs @ raised ys"
  "raised ((stm, None) # xs) = raised xs" "raised ((stm, Some e) # xs) = e # raised xs"
  by (simp_all add: raised_def List.map_filter_def)


















section \<open>The state a transition writes\<close>

lemma await_UpdateState_Inr:
  assumes "cases s i = Some r"
  shows "(await (query (UpdateState i t u)) f s = (Inr y, s')) =
     (faults s (length (trace s)) = None \<and>
      (\<exists>t' u'. to_text t = Some t' \<and> to_text u = Some u' \<and>
         f (CaseRows [r\<lparr>state := t', updated_by := u', updated_at := now s\<rparr>])
           (s\<lparr>cases := (cases s)(i := Some (r\<lparr>state := t', updated_by := u', updated_at := now s\<rparr>)),
              trace := trace s @ [(UpdateState i t u, None)]\<rparr>) = (Inr y, s')))"
  using assms
  by (auto simp: await_query_Inr update_row_found sum_bind_def not_null_def
        split: sum.splits option.splits)

lemma await_InsertCase_Inr:
  "(await (query (InsertCase t d cb)) f s = (Inr y, s')) =
     (faults s (length (trace s)) = None \<and>
      (\<exists>t' cb'. to_text t = Some t' \<and> to_text cb = Some cb' \<and>
         cases s (uuids s (uuid_count s)) = None \<and>
         f (CaseRows [\<lparr>row_id = uuids s (uuid_count s), state = ''DRAFT'', title = t',
                 description = to_text d,
                 created_by = cb', updated_by = cb', assigned_to = None,
                 person_name = None, nhs_number = None,
                 dob_day = None, dob_month = None, dob_year = None,
                 symptoms_day = None, symptoms_month = None, symptoms_year = None,
                 postcode = None, organisation = None,
                 created_at = now s, updated_at = now s, version = 1\<rparr>])
           (s\<lparr>cases := (cases s)(uuids s (uuid_count s) := Some
                \<lparr>row_id = uuids s (uuid_count s), state = ''DRAFT'', title = t',
                 description = to_text d,
                 created_by = cb', updated_by = cb', assigned_to = None,
                 person_name = None, nhs_number = None,
                 dob_day = None, dob_month = None, dob_year = None,
                 symptoms_day = None, symptoms_month = None, symptoms_year = None,
                 postcode = None, organisation = None,
                 created_at = now s, updated_at = now s, version = 1\<rparr>),
              uuid_count := Suc (uuid_count s),
              trace := trace s @ [(InsertCase t d cb, None)]\<rparr>) = (Inr y, s')))"
  by (auto simp: await_query_Inr sum_bind_def not_null_def Let_def
        split: sum.splits option.splits if_splits)

lemma transition_body_Inr:
  assumes run: "transition_body i et cm actor s = (Inr (Some b), s')"
    and row: "cases s i = Some r"
  shows "\<exists>u. cases s' = (cases s)(i := Some
            (r\<lparr>state := named_state et (state r), updated_by := u, updated_at := now s\<rparr>))"
  using run row
  apply (simp add: transition_body_def await_BEGIN_Inr await_SelectCase_Inr begin_state_simps
           toState_of_named)
  apply (simp add: await_UpdateState_Inr [where r = r] begin_state_simps)
  apply (elim exE conjE)
  apply (simp add: await_InsertEvent_Inr await_COMMIT_Inr resolve_Inr)
  apply (auto simp: begin_state_simps)
  done

lemma create_body_Inr:
  assumes run: "create_body t d cb s = (Inr c, s')"
  shows "state c = ''DRAFT'' \<and> cases s' (row_id c) = Some c \<and> cases s (row_id c) = None"
  using run
  apply (simp add: create_body_def await_BEGIN_Inr await_InsertCase_Inr begin_state_simps)
  apply (elim exE conjE)
  apply (auto simp: await_InsertEvent_Inr await_COMMIT_Inr resolve_Inr begin_state_simps)
  done

text \<open>
  Claim C3, as the code has it. \<open>createCase\<close> creates a case in state DRAFT. A call of
  \<open>transitionCase\<close> that returns the case has set its state to the one the event type
  names (IN_REVIEW for "SUBMIT_FOR_REVIEW", RETURNED for "RETURN", APPROVED for "APPROVE",
  the current state for any other type), whatever the current state is. Every legal
  transition is the effect of one of the three event types; the engine does not refuse
  the transitions outside the legal set.
\<close>

theorem C3_state_follows_event_type:
  "(createCase t d cb st = (Inr c, st') \<longrightarrow>
      state c = ''DRAFT'' \<and> cases st' (row_id c) = Some c)
   \<and> (transitionCase i et cm a st2 = (Inr (Some b), st2') \<longrightarrow> cases st2 i = Some r \<longrightarrow>
        (\<exists>r'. cases st2' i = Some r' \<and> state r' = named_state et (state r)))
   \<and> (legal_transition s s' \<longrightarrow> (\<exists>tag. named_state (JStr tag) s = s'))"
proof (intro conjI impI)
  assume "createCase t d cb st = (Inr c, st')"
  then obtain s1 where
    "create_body t d (default_param cb (JStr ''local-user''))
       (st\<lparr>clients_out := Suc (clients_out st)\<rparr>) = (Inr c, s1)" and "st' = release s1"
    by (auto simp: createCase_eq in_transaction_Inr)
  with create_body_Inr [OF this(1)]
  show "state c = ''DRAFT''" and "cases st' (row_id c) = Some c"
    by (simp_all add: release_def)
next
  assume "transitionCase i et cm a st2 = (Inr (Some b), st2')" and row: "cases st2 i = Some r"
  then obtain s1 where
    body: "transition_body i et (default_param cm JNull) (default_param a (JStr ''local-user''))
       (st2\<lparr>clients_out := Suc (clients_out st2)\<rparr>) = (Inr (Some b), s1)" and "st2' = release s1"
    by (auto simp: transitionCase_eq in_transaction_Inr)
  moreover have "cases (st2\<lparr>clients_out := Suc (clients_out st2)\<rparr>) i = Some r"
    using row by simp
  from transition_body_Inr [OF body this] obtain u where
    "cases s1 = (cases st2)(i := Some
            (r\<lparr>state := named_state et (state r), updated_by := u, updated_at := now st2\<rparr>))"
    by auto
  ultimately show "\<exists>r'. cases st2' i = Some r' \<and> state r' = named_state et (state r)"
    by (simp add: release_def)
next
  assume "legal_transition s s'"
  then consider "s' = ''IN_REVIEW''" | "s' = ''APPROVED''" | "s' = ''RETURNED''"
    by (auto simp: legal_transition_def)
  then show "\<exists>tag. named_state (JStr tag) s = s'"
  proof cases
    case 1
    then have "named_state (JStr ''SUBMIT_FOR_REVIEW'') s = s'" by (simp add: named_state_def)
    then show ?thesis ..
  next
    case 2
    then have "named_state (JStr ''APPROVE'') s = s'" by (simp add: named_state_def)
    then show ?thesis ..
  next
    case 3
    then have "named_state (JStr ''RETURN'') s = s'" by (simp add: named_state_def)
    then show ?thesis ..
  qed
qed

theorem C3_witness:
  "(\<exists>c. fst (createCase (JStr ''Flu cluster'') JNull JUndefined empty_store) = Inr c
        \<and> state c = ''DRAFT'' \<and> cases created_store (row_id c) = Some c)
   \<and> (\<exists>r'. cases (snd (transitionCase 7 (JStr ''APPROVE'') JUndefined JUndefined draft_store)) 7
            = Some r' \<and> state r' = ''APPROVED'')
   \<and> (\<exists>tag. named_state (JStr tag) ''DRAFT'' = ''IN_REVIEW'')"
proof -
  from create_returns obtain c where
    c: "createCase (JStr ''Flu cluster'') JNull JUndefined empty_store = (Inr c, created_store)"
    by (auto simp: created_store_def prod_eq_iff)
  from approve_draft_returns obtain b where
    b: "transitionCase 7 (JStr ''APPROVE'') JUndefined JUndefined draft_store =
          (Inr (Some b), snd (transitionCase 7 (JStr ''APPROVE'') JUndefined JUndefined draft_store))"
    by (auto simp: prod_eq_iff)
  have legal: "legal_transition ''DRAFT'' ''IN_REVIEW''"
    by (simp add: legal_transition_def)
  note inst = C3_state_follows_event_type
    [where t = "JStr ''Flu cluster''" and d = JNull and cb = JUndefined and st = empty_store
       and c = c and st' = created_store
       and i = 7 and et = "JStr ''APPROVE''" and cm = JUndefined and a = JUndefined
       and ?st2.0 = draft_store and b = b
       and ?st2' = "snd (transitionCase 7 (JStr ''APPROVE'') JUndefined JUndefined draft_store)"
       and r = draft_row and s = "''DRAFT''" and s' = "''IN_REVIEW''"]
  from inst c b legal draft_store_row show ?thesis
    by (auto simp: named_state_def draft_row_def)
qed

text \<open>
  Claim C3 as stated fails. A case is created (DRAFT); "APPROVE" moves it from DRAFT
  straight to APPROVED, which is not a legal transition; "SUBMIT_FOR_REVIEW" then moves
  it out of APPROVED, to IN_REVIEW.
\<close>

theorem C3_counterexample:
  "map_option state (cases created_store 100) = Some ''DRAFT''
   \<and> map_option state (cases approved_store 100) = Some ''APPROVED''
   \<and> \<not> legal_transition ''DRAFT'' ''APPROVED''
   \<and> map_option state (cases resubmitted_store 100) = Some ''IN_REVIEW''
   \<and> \<not> legal_transition ''APPROVED'' ''IN_REVIEW''"
  by (simp add: resubmitted_store_def approved_store_def created_store_def
        createCase_def transitionCase_def toState_of_def store_defs eval_defs legal_transition_def)

section \<open>The routes of the server\<close>









lemma undecided_trace [simp]: "undecided (s\<lparr>trace := tr\<rparr>) = undecided s"
  by (simp add: undecided_def)

lemma undecided_clients [simp]: "undecided (s\<lparr>clients_out := n\<rparr>) = undecided s"
  by (simp add: undecided_def)






















section \<open>Snapshots and the rows of changed fields\<close>

lemma snapshot_has_keys: "pickCaseSnapshot (Some c) = Some snap \<Longrightarrow> map fst snap = snapshot_keys"
  by (auto simp: pickCaseSnapshot_def snapshot_keys_def)

lemma snapshot_value:
  "k \<in> set snapshot_keys \<Longrightarrow>
   get_prop (the (pickCaseSnapshot (Some c))) k = js_coalesce (get_prop c k) JNull"
  unfolding snapshot_keys_def pickCaseSnapshot_def
  by (auto simp: get_prop_def)

text \<open>
  Claim C10, as the code has it. \<open>pickCaseSnapshot\<close> is total. Of an object it returns a
  snapshot with exactly the fifteen keys, in their order; each holds the object's value
  for the key, and \<open>null\<close> when that value is missing (\<open>undefined\<close>) or \<open>null\<close>, so no
  value of a snapshot is \<open>undefined\<close>. The marker of an absent value is JavaScript's own
  \<open>null\<close>. Of \<open>null\<close> or \<open>undefined\<close> it returns \<open>null\<close>, not a snapshot.
\<close>

theorem C10_snapshot_normalises_to_null:
  "pickCaseSnapshot None = None \<and>
   (\<exists>snap. pickCaseSnapshot (Some c) = Some snap \<and> map fst snap = snapshot_keys \<and>
      list_all (\<lambda>k. get_prop snap k = (if nullish (get_prop c k) then JNull else get_prop c k)
                   \<and> get_prop snap k \<noteq> JUndefined) snapshot_keys)"
proof -
  have none: "pickCaseSnapshot None = None"
    by (simp add: pickCaseSnapshot_def)
  obtain snap where snap: "pickCaseSnapshot (Some c) = Some snap"
    by (simp add: pickCaseSnapshot_def)
  have keys: "map fst snap = snapshot_keys"
    using snap by (rule snapshot_has_keys)
  have "\<forall>k\<in>set snapshot_keys.
          get_prop snap k = (if nullish (get_prop c k) then JNull else get_prop c k)
          \<and> get_prop snap k \<noteq> JUndefined"
  proof
    fix k assume "k \<in> set snapshot_keys"
    then have "get_prop snap k = js_coalesce (get_prop c k) JNull"
      using snapshot_value [of k c] snap by simp
    then show "get_prop snap k = (if nullish (get_prop c k) then JNull else get_prop c k)
          \<and> get_prop snap k \<noteq> JUndefined"
      by (simp add: js_coalesce_def nullish_def)
  qed
  then have "list_all (\<lambda>k. get_prop snap k = (if nullish (get_prop c k) then JNull else get_prop c k)
                   \<and> get_prop snap k \<noteq> JUndefined) snapshot_keys"
    by (simp only: list_all_iff)
  with none snap keys show ?thesis by blast
qed

text \<open>
  Claim C10 as stated fails: the absent marker is one of JavaScript's own null values. The
  snapshot of the draft case, whose description is NULL, holds \<open>null\<close> for it, and the
  snapshot of the empty object holds \<open>null\<close> for the title it does not have.
\<close>

theorem C10_counterexample:
  "get_prop (the (pickCaseSnapshot (Some (row_object draft_row)))) ''description'' = JNull
   \<and> nullish (get_prop (the (pickCaseSnapshot (Some (row_object draft_row)))) ''description'')
   \<and> get_prop [] ''title'' = JUndefined
   \<and> nullish (get_prop (the (pickCaseSnapshot (Some []))) ''title'')"
  by (simp add: pickCaseSnapshot_def row_object_def draft_row_def get_prop_def
        js_coalesce_def nullish_def js_text_def)

lemma simple_rows_not_dob:
  "filter (\<lambda>r. key_text r = ''Date of birth'') (simple_rows en_GB b a simpleKeys) = []"
  by (simp add: simpleKeys_def label_of_def labelMap_def Let_def)

lemma simple_rows_not_symptoms:
  "filter (\<lambda>r. key_text r = ''Symptoms start date'') (simple_rows en_GB b a simpleKeys) = []"
  by (simp add: simpleKeys_def label_of_def labelMap_def Let_def)

lemma displayValue_dob:
  "displayValue en_GB ''dob_day'' s =
     date_text en_GB (get_prop s ''dob_day'') (get_prop s ''dob_month'') (get_prop s ''dob_year'')"
  by (simp add: displayValue_def formatDMY_def or_not_provided_def date_text_def
        split: option.splits)

lemma displayValue_symptoms:
  "displayValue en_GB ''symptoms_day'' s =
     date_text en_GB (get_prop s ''symptoms_day'') (get_prop s ''symptoms_month'')
       (get_prop s ''symptoms_year'')"
  by (simp add: displayValue_def formatDMY_def or_not_provided_def date_text_def
        split: option.splits)

text \<open>
  Claim C9. Of two snapshots, the rows labelled "Date of birth" are: one row when any of
  \<open>dob_day\<close>, \<open>dob_month\<close>, \<open>dob_year\<close> differs, none otherwise. The row shows, from and
  to, the text of the whole date: the formatted date, or "Not provided" when a part is
  absent, as it is when the triple is. The same holds of "Symptoms start date" and the
  symptoms triple.
\<close>

theorem C9_one_row_per_date_group:
  "filter (\<lambda>r. key_text r = ''Date of birth'') (buildChangedRows en_GB (Some b) (Some a)) =
     (if differs b a ''dob_day'' \<or> differs b a ''dob_month'' \<or> differs b a ''dob_year''
      then [\<lparr>key_text = ''Date of birth'',
             value_html = from_to_html
               (date_text en_GB (get_prop b ''dob_day'') (get_prop b ''dob_month'')
                  (get_prop b ''dob_year''))
               (date_text en_GB (get_prop a ''dob_day'') (get_prop a ''dob_month'')
                  (get_prop a ''dob_year''))\<rparr>]
      else [])
   \<and> filter (\<lambda>r. key_text r = ''Symptoms start date'') (buildChangedRows en_GB (Some b) (Some a)) =
     (if differs b a ''symptoms_day'' \<or> differs b a ''symptoms_month'' \<or> differs b a ''symptoms_year''
      then [\<lparr>key_text = ''Symptoms start date'',
             value_html = from_to_html
               (date_text en_GB (get_prop b ''symptoms_day'') (get_prop b ''symptoms_month'')
                  (get_prop b ''symptoms_year''))
               (date_text en_GB (get_prop a ''symptoms_day'') (get_prop a ''symptoms_month'')
                  (get_prop a ''symptoms_year''))\<rparr>]
      else [])
   \<and> date_text en_GB JNull JNull JNull = ''Not provided''
   \<and> date_text en_GB JUndefined JUndefined JUndefined = ''Not provided''"
  by (simp add: buildChangedRows_def dobChanged_def symptomsChanged_def differs_def
        simple_rows_not_dob simple_rows_not_symptoms displayValue_dob displayValue_symptoms
        date_text_def)

theorem C9_witness:
  "filter (\<lambda>r. key_text r = ''Date of birth'')
     (buildChangedRows march_dates (Some born_1990) (Some born_1991)) =
     [\<lparr>key_text = ''Date of birth'',
       value_html = from_to_html (''15 March '' @ string_of_int 1990)
                                 (''15 March '' @ string_of_int 1991)\<rparr>]
   \<and> filter (\<lambda>r. key_text r = ''Symptoms start date'')
     (buildChangedRows march_dates (Some born_1990) (Some born_1991)) = []
   \<and> buildChangedRows march_dates (Some born_1990) (Some born_1991) =
     [\<lparr>key_text = ''Date of birth'',
       value_html = from_to_html (''15 March '' @ string_of_int 1990)
                                 (''15 March '' @ string_of_int 1991)\<rparr>]"
proof -
  have rows: "buildChangedRows march_dates (Some born_1990) (Some born_1991) =
     [\<lparr>key_text = ''Date of birth'',
       value_html = from_to_html (''15 March '' @ string_of_int 1990)
                                 (''15 March '' @ string_of_int 1991)\<rparr>]"
    by (simp add: buildChangedRows_def simpleKeys_def dobChanged_def symptomsChanged_def
          displayValue_def formatDMY_def or_not_provided_def march_dates_def
          born_1990_def born_1991_def get_prop_def js_coalesce_def nullish_def Let_def
          string_of_int_def digits.simps [of 1990] digits.simps [of 1991])
  from C9_one_row_per_date_group [of march_dates born_1990 born_1991] rows
  show ?thesis
    by (simp add: differs_def date_text_def march_dates_def born_1990_def born_1991_def
          get_prop_def js_coalesce_def nullish_def)
qed

end
